theory Spec2Isabelle
  imports Complex_Main
begin

section \<open>Voice capsule recorder: the capture session and the segment orchestrator\<close>

text \<open>
  A shallow embedding of \<^verbatim>\<open>src/hooks/useRecorder.ts\<close> (the capture session), of
  \<^verbatim>\<open>src/components/Recorder.tsx\<close> (the three-segment orchestrator) and of the upload
  client \<^verbatim>\<open>uploadAudioSegment\<close> / \<^verbatim>\<open>uploadViaBackend\<close> that the component imports
  from \<^verbatim>\<open>utils/cos-upload\<close>. Left out are \<^verbatim>\<open>pauseRecording\<close> and \<^verbatim>\<open>resumeRecording\<close>
  of the hook, which the component never calls, \<^verbatim>\<open>handleComplete\<close>, and everything that
  only draws.

  React state, the refs of the hook and the browser resources they point to (timers, media
  streams, audio contexts) are the fields of one record \<open>world\<close>, passed explicitly. An
  asynchronous handler is split at its \<^verbatim>\<open>await\<close>: the part before it is one function, the
  part after it another one that takes what the awaited promise resolved to. What the
  environment decides (whether the microphone is granted, what the recorder hands back, how the
  upload request ends) is a parameter of the function that receives it. A handler is a closure
  of the render that created it: what it reads of the hook's state is what that render saw,
  which after an interval callback can be behind the state itself until the next render.
\<close>

subsection \<open>Constants\<close>

definition SEGMENT_DURATION :: nat where
  "SEGMENT_DURATION = 60"

definition MAX_RETRIES :: nat where
  "MAX_RETRIES = 3"

text \<open>
  The delay of the hold timeout, in milliseconds. The model has no clock: a timeout is pending
  until it runs or is cleared, and an interval runs any number of times until it is cleared.
\<close>

definition HOLD_DELAY :: nat where
  "HOLD_DELAY = 500"

definition MAX_RECORDING_TIME :: nat where
  "MAX_RECORDING_TIME = 60"

subsection \<open>User-facing texts\<close>

text \<open>useRecorder.ts line 111: the default text, recording could not be started, check the microphone permission (the UTF-8 bytes of the literal).\<close>

definition msgStartGeneric :: string where
  "msgStartGeneric =
    [CHR 0xE6, CHR 0x97, CHR 0xA0, CHR 0xE6, CHR 0xB3, CHR 0x95, CHR 0xE5, CHR 0x90,
     CHR 0xAF, CHR 0xE5, CHR 0x8A, CHR 0xA8, CHR 0xE5, CHR 0xBD, CHR 0x95, CHR 0xE9,
     CHR 0x9F, CHR 0xB3, CHR 0xEF, CHR 0xBC, CHR 0x8C, CHR 0xE8, CHR 0xAF, CHR 0xB7,
     CHR 0xE6, CHR 0xA3, CHR 0x80, CHR 0xE6, CHR 0x9F, CHR 0xA5, CHR 0xE9, CHR 0xBA,
     CHR 0xA6, CHR 0xE5, CHR 0x85, CHR 0x8B, CHR 0xE9, CHR 0xA3, CHR 0x8E, CHR 0xE6,
     CHR 0x9D, CHR 0x83, CHR 0xE9, CHR 0x99, CHR 0x90]"

text \<open>useRecorder.ts line 115: microphone permission refused, open in the browser and retry (the UTF-8 bytes of the literal).\<close>

definition msgPermissionDenied :: string where
  "msgPermissionDenied =
    [CHR 0xE9, CHR 0xBA, CHR 0xA6, CHR 0xE5, CHR 0x85, CHR 0x8B, CHR 0xE9, CHR 0xA3,
     CHR 0x8E, CHR 0xE6, CHR 0x9D, CHR 0x83, CHR 0xE9, CHR 0x99, CHR 0x90, CHR 0xE8,
     CHR 0xA2, CHR 0xAB, CHR 0xE6, CHR 0x8B, CHR 0x92, CHR 0xE7, CHR 0xBB, CHR 0x9D,
     CHR 0xEF, CHR 0xBC, CHR 0x8C, CHR 0xE8, CHR 0xAF, CHR 0xB7, CHR 0xE7, CHR 0x82,
     CHR 0xB9, CHR 0xE5, CHR 0x87, CHR 0xBB, CHR 0xE5, CHR 0x8F, CHR 0xB3, CHR 0xE4,
     CHR 0xB8, CHR 0x8A, CHR 0xE8, CHR 0xA7, CHR 0x92, CHR 0x22, CHR 0xE5, CHR 0x9C,
     CHR 0xA8, CHR 0xE6, CHR 0xB5, CHR 0x8F, CHR 0xE8, CHR 0xA7, CHR 0x88, CHR 0xE5,
     CHR 0x99, CHR 0xA8, CHR 0xE6, CHR 0x89, CHR 0x93, CHR 0xE5, CHR 0xBC, CHR 0x80,
     CHR 0x22, CHR 0xE5, CHR 0x90, CHR 0x8E, CHR 0xE9, CHR 0x87, CHR 0x8D, CHR 0xE8,
     CHR 0xAF, CHR 0x95]"

text \<open>useRecorder.ts line 117: no microphone device found (the UTF-8 bytes of the literal).\<close>

definition msgNoDevice :: string where
  "msgNoDevice =
    [CHR 0xE6, CHR 0x9C, CHR 0xAA, CHR 0xE6, CHR 0x89, CHR 0xBE, CHR 0xE5, CHR 0x88,
     CHR 0xB0, CHR 0xE9, CHR 0xBA, CHR 0xA6, CHR 0xE5, CHR 0x85, CHR 0x8B, CHR 0xE9,
     CHR 0xA3, CHR 0x8E, CHR 0xE8, CHR 0xAE, CHR 0xBE, CHR 0xE5, CHR 0xA4, CHR 0x87]"

text \<open>Recorder.tsx line 166: recording failed, please retry (the UTF-8 bytes of the literal).\<close>

definition msgCaptureFailed :: string where
  "msgCaptureFailed =
    [CHR 0xE5, CHR 0xBD, CHR 0x95, CHR 0xE5, CHR 0x88, CHR 0xB6, CHR 0xE5, CHR 0xA4,
     CHR 0xB1, CHR 0xE8, CHR 0xB4, CHR 0xA5, CHR 0xEF, CHR 0xBC, CHR 0x8C, CHR 0xE8,
     CHR 0xAF, CHR 0xB7, CHR 0xE9, CHR 0x87, CHR 0x8D, CHR 0xE8, CHR 0xAF, CHR 0x95]"

text \<open>Recorder.tsx lines 308 and 318, cos-upload: upload failed (the UTF-8 bytes of the literal).\<close>

definition msgUploadFailed :: string where
  "msgUploadFailed =
    [CHR 0xE4, CHR 0xB8, CHR 0x8A, CHR 0xE4, CHR 0xBC, CHR 0xA0, CHR 0xE5, CHR 0xA4,
     CHR 0xB1, CHR 0xE8, CHR 0xB4, CHR 0xA5]"

text \<open>Recorder.tsx line 329: cannot retry, please record again (the UTF-8 bytes of the literal).\<close>

definition msgCannotRetry :: string where
  "msgCannotRetry =
    [CHR 0xE6, CHR 0x97, CHR 0xA0, CHR 0xE6, CHR 0xB3, CHR 0x95, CHR 0xE9, CHR 0x87,
     CHR 0x8D, CHR 0xE8, CHR 0xAF, CHR 0x95, CHR 0xEF, CHR 0xBC, CHR 0x8C, CHR 0xE8,
     CHR 0xAF, CHR 0xB7, CHR 0xE9, CHR 0x87, CHR 0x8D, CHR 0xE6, CHR 0x96, CHR 0xB0,
     CHR 0xE5, CHR 0xBD, CHR 0x95, CHR 0xE5, CHR 0x88, CHR 0xB6]"

text \<open>Recorder.tsx line 340: this segment was retried too often, go on to the next one (the UTF-8 bytes of the literal).\<close>

definition msgTooManyRetries :: string where
  "msgTooManyRetries =
    [CHR 0xE8, CHR 0xAF, CHR 0xA5, CHR 0xE6, CHR 0xAE, CHR 0xB5, CHR 0xE5, CHR 0xB7,
     CHR 0xB2, CHR 0xE9, CHR 0x87, CHR 0x8D, CHR 0xE8, CHR 0xAF, CHR 0x95, CHR 0xE6,
     CHR 0xAC, CHR 0xA1, CHR 0xE6, CHR 0x95, CHR 0xB0, CHR 0xE8, CHR 0xBF, CHR 0x87,
     CHR 0xE5, CHR 0xA4, CHR 0x9A, CHR 0xEF, CHR 0xBC, CHR 0x8C, CHR 0xE8, CHR 0xAF,
     CHR 0xB7, CHR 0xE7, CHR 0xBB, CHR 0xA7, CHR 0xE7, CHR 0xBB, CHR 0xAD, CHR 0xE4,
     CHR 0xB8, CHR 0x8B, CHR 0xE4, CHR 0xB8, CHR 0x80, CHR 0xE6, CHR 0xAE, CHR 0xB5]"

subsection \<open>Data model\<close>

text \<open>A \<^verbatim>\<open>Blob\<close>: its media type tag and its size in bytes.\<close>

record Blob =
  blobType :: string
  blobSize :: nat

text \<open>The \<^verbatim>\<open>RecorderState\<close> interface of the hook. Object URLs are handles (numbers).\<close>

record RecorderState =
  isRecording :: bool
  isPaused :: bool
  recordingTime :: nat
  volume :: real
  error :: "string option"
  audioBlob :: "Blob option"
  audioUrl :: "nat option"

datatype Status = Pending | Recording | Processing | Recorded | Uploading | Uploaded | Error

text \<open>The \<^verbatim>\<open>Segment\<close> interface of the component (\<open>seg_id\<close> is its field \<^verbatim>\<open>id\<close>).\<close>

record Segment =
  seg_id :: nat
  status :: Status
  blob :: "Blob option"
  url :: "nat option"
  uploadUrl :: "string option"
  retryCount :: nat
  errorMsg :: "string option"

text \<open>The \<^verbatim>\<open>UploadResult\<close> interface of the upload client.\<close>

record UploadResult =
  success :: bool
  res_url :: "string option"
  res_key :: "string option"
  res_error :: "string option"

text \<open>
  What \<^verbatim>\<open>getUserMedia\<close> can do: grant a stream, or reject with an error that is a
  \<^verbatim>\<open>DOMException\<close> of some name, or with anything else.
\<close>

datatype js_error = DOMException string | OtherError

datatype media_outcome = Granted | Rejected js_error

text \<open>
  What the request of \<^verbatim>\<open>uploadViaBackend\<close> can do: throw inside the \<^verbatim>\<open>try\<close> (an
  \<^verbatim>\<open>Error\<close> with its message, or a value that is no \<^verbatim>\<open>Error\<close>), or answer with
  \<^verbatim>\<open>response.ok\<close> and the fields \<^verbatim>\<open>url\<close> and \<^verbatim>\<open>key\<close> of the JSON body.
\<close>

datatype fetch_outcome = FetchThrew "string option" | Response bool "string option" "string option"

text \<open>
  The browser's timers: the 1 Hz interval of the hook, its 10 Hz volume interval, and the hold
  timeout of the component, which captured \<^verbatim>\<open>currentSegment\<close> when it was set.
\<close>

datatype timer = TickInterval | VolumeInterval | HoldTimeout nat

text \<open>
  Who called \<^verbatim>\<open>stopRecording\<close> and waits for its promise: the tick of the hook (which
  drops the promise), \<^verbatim>\<open>handleAutoStop\<close> or \<^verbatim>\<open>handleTouchEnd\<close>, each with the
  \<^verbatim>\<open>currentSegment\<close> its closure captured.
\<close>

datatype caller = TickCb | AutoStopCb nat | TouchEndCb nat

datatype 'a promise = Resolved 'a | Awaiting

text \<open>What the program does to the outside, in the order it does it.\<close>

datatype effect =
    Alert string
  | StartCall
  | StopCall caller
  | ResetCall
  | UploadCall nat Blob
  | RevokeObjectURL nat

record world =
  state :: RecorderState
  rendered :: RecorderState
  recorderRef :: "nat option"
  streamRef :: "nat option"
  timerRef :: "nat option"
  volumeRef :: "nat option"
  audioContextRef :: "nat option"
  analyserRef :: "nat option"
  currentSegment :: nat
  segments :: "Segment list"
  isHoldStarting :: bool
  showGuide :: bool
  holdTimerRef :: "nat option"
  timers :: "(nat \<times> timer) list"
  liveStreams :: "nat list"
  openContexts :: "nat list"
  nextHandle :: nat
  stopping :: "caller list"
  inFlight :: "(nat \<times> Blob) list"
  trace :: "effect list"

text \<open>
  \<open>state\<close> is the state of the hook with every update applied that was queued so far;
  \<open>rendered\<close> is that state as the last committed render saw it. The callbacks of the
  component and \<^verbatim>\<open>resetRecording\<close> are closures of that render (\<^verbatim>\<open>useCallback\<close> with
  \<^verbatim>\<open>state.isRecording\<close>, \<^verbatim>\<open>state.recordingTime\<close>, \<^verbatim>\<open>state.audioUrl\<close> among the
  dependencies): what they read of the hook's state they read from \<open>rendered\<close>, while the
  updater functions they queue work on \<open>state\<close>.
  \<open>timers\<close> are the live timers of the browser by handle, \<open>liveStreams\<close> the media streams
  whose tracks were not stopped (the device is held), \<open>openContexts\<close> the audio contexts not
  closed, \<open>stopping\<close> the calls of \<^verbatim>\<open>RecordRTC.stopRecording\<close> whose callback has not
  run, \<open>inFlight\<close> the calls of \<^verbatim>\<open>uploadAudioSegment\<close> that have not settled (position and
  payload), \<open>trace\<close> the effects so far.
\<close>

definition initialState :: RecorderState where
  "initialState =
    \<lparr>isRecording = False, isPaused = False, recordingTime = 0, volume = 0,
     error = None, audioBlob = None, audioUrl = None\<rparr>"

definition initialSegment :: "nat \<Rightarrow> Segment" where
  "initialSegment i =
    \<lparr>seg_id = i, status = Pending, blob = None, url = None, uploadUrl = None,
     retryCount = 0, errorMsg = None\<rparr>"

definition init :: world where
  "init =
    \<lparr>state = initialState, rendered = initialState, recorderRef = None, streamRef = None,
     timerRef = None, volumeRef = None, audioContextRef = None, analyserRef = None,
     currentSegment = 0,
     segments = [initialSegment 0, initialSegment 1, initialSegment 2],
     isHoldStarting = False, showGuide = True, holdTimerRef = None,
     timers = [], liveStreams = [], openContexts = [], nextHandle = 1,
     stopping = [], inFlight = [], trace = []\<rparr>"

subsection \<open>The browser\<close>

text \<open>\<^verbatim>\<open>clearInterval\<close> and \<^verbatim>\<open>clearTimeout\<close> share the handles.\<close>

definition clearTimer :: "nat \<Rightarrow> world \<Rightarrow> world" where
  "clearTimer h w = w\<lparr>timers := filter (\<lambda>t. fst t \<noteq> h) (timers w)\<rparr>"

text \<open>\<^verbatim>\<open>URL.createObjectURL\<close>: a fresh handle.\<close>

definition createObjectURL :: "world \<Rightarrow> nat \<times> world" where
  "createObjectURL w = (nextHandle w, w\<lparr>nextHandle := nextHandle w + 1\<rparr>)"

text \<open>JavaScript's \<^verbatim>\<open>s || d\<close> on an optional string: \<open>undefined\<close> and the empty string are falsy.\<close>

definition orElse :: "string option \<Rightarrow> string \<Rightarrow> string" where
  "orElse s d = (case s of None \<Rightarrow> d | Some t \<Rightarrow> if t = [] then d else t)"

definition orNull :: "string option \<Rightarrow> string option" where
  "orNull s = (case s of None \<Rightarrow> None | Some t \<Rightarrow> if t = [] then None else Some t)"

subsection \<open>The upload client\<close>

text \<open>\<^verbatim>\<open>uploadViaBackend\<close>: every failure is caught and returned as a result.\<close>

definition uploadViaBackend :: "fetch_outcome \<Rightarrow> UploadResult" where
  "uploadViaBackend out =
    (case out of
       FetchThrew m \<Rightarrow>
         \<lparr>success = False, res_url = None, res_key = None,
          res_error = Some (case m of Some msg \<Rightarrow> msg | None \<Rightarrow> msgUploadFailed)\<rparr>
     | Response ok u k \<Rightarrow>
         if ok then \<lparr>success = True, res_url = u, res_key = k, res_error = None\<rparr>
         else \<lparr>success = False, res_url = None, res_key = None,
               res_error = Some msgUploadFailed\<rparr>)"

definition uploadAudioSegment :: "fetch_outcome \<Rightarrow> UploadResult" where
  "uploadAudioSegment out = uploadViaBackend out"

subsection \<open>The capture session: \<^verbatim>\<open>useRecorder\<close>\<close>

definition startErrorMessage :: "js_error \<Rightarrow> string" where
  "startErrorMessage err =
    (case err of
       DOMException name \<Rightarrow>
         if name = ''NotAllowedError'' then msgPermissionDenied
         else if name = ''NotFoundError'' then msgNoDevice
         else msgStartGeneric
     | OtherError \<Rightarrow> msgStartGeneric)"

text \<open>
  \<^verbatim>\<open>startRecording\<close>, with the outcome of \<^verbatim>\<open>getUserMedia\<close>. On a grant it takes the
  stream, builds the audio context, the analyser and the recorder, sets the state and starts
  the two intervals; on a rejection only \<^verbatim>\<open>error\<close> is written. The request is the one
  place where the function waits, and the model takes its outcome in the same step; the
  constructors called after the grant are taken not to throw.
\<close>

definition startRecording :: "media_outcome \<Rightarrow> world \<Rightarrow> world" where
  "startRecording out w =
    (let w0 = w\<lparr>state := (state w)\<lparr>error := None\<rparr>, trace := trace w @ [StartCall]\<rparr> in
     case out of
       Rejected err \<Rightarrow> w0\<lparr>state := (state w0)\<lparr>error := Some (startErrorMessage err)\<rparr>\<rparr>
     | Granted \<Rightarrow>
         (let h = nextHandle w0 in
          w0\<lparr>streamRef := Some h,
             liveStreams := liveStreams w0 @ [h],
             audioContextRef := Some (h + 1),
             openContexts := openContexts w0 @ [h + 1],
             analyserRef := Some (h + 2),
             recorderRef := Some (h + 3),
             state := (state w0)\<lparr>isRecording := True, isPaused := False, recordingTime := 0\<rparr>,
             timerRef := Some (h + 4),
             volumeRef := Some (h + 5),
             timers := timers w0 @ [(h + 4, TickInterval), (h + 5, VolumeInterval)],
             nextHandle := h + 6\<rparr>))"

definition clearTimerRef :: "world \<Rightarrow> world" where
  "clearTimerRef w =
    (case timerRef w of None \<Rightarrow> w | Some h \<Rightarrow> (clearTimer h w)\<lparr>timerRef := None\<rparr>)"

definition clearVolumeRef :: "world \<Rightarrow> world" where
  "clearVolumeRef w =
    (case volumeRef w of None \<Rightarrow> w | Some h \<Rightarrow> (clearTimer h w)\<lparr>volumeRef := None\<rparr>)"

definition closeAudioContext :: "world \<Rightarrow> world" where
  "closeAudioContext w =
    (case audioContextRef w of
       None \<Rightarrow> w
     | Some c \<Rightarrow> w\<lparr>openContexts := removeAll c (openContexts w)\<rparr>)"

definition stopTracks :: "world \<Rightarrow> world" where
  "stopTracks w =
    (case streamRef w of
       None \<Rightarrow> w
     | Some s \<Rightarrow> w\<lparr>liveStreams := removeAll s (liveStreams w)\<rparr>)"

text \<open>
  \<^verbatim>\<open>stopRecording\<close>, the body of its promise: it clears the two intervals and closes the
  audio context; with a recorder it asks the recorder to stop and the promise waits for the
  recorder's callback, with none it resolves to \<^verbatim>\<open>null\<close> at once.
\<close>

definition stopRecording :: "caller \<Rightarrow> world \<Rightarrow> world \<times> Blob option promise" where
  "stopRecording c w =
    (let w1 = w\<lparr>trace := trace w @ [StopCall c]\<rparr>;
         w2 = closeAudioContext (clearVolumeRef (clearTimerRef w1))
     in if recorderRef w2 \<noteq> None
        then (w2\<lparr>stopping := stopping w2 @ [c]\<rparr>, Awaiting)
        else (w2, Resolved None))"

text \<open>
  The callback given to the recorder (lines 145 to 164), with what \<^verbatim>\<open>getBlob()\<close> hands
  back: it writes the state, stops the tracks of the stream and resolves the promise.
\<close>

definition onRecorderStopped :: "Blob option \<Rightarrow> world \<Rightarrow> world \<times> Blob option" where
  "onRecorderStopped gb w =
    (let b = (if recorderRef w = None then None else gb);
         (u, w1) = (case b of
                      None \<Rightarrow> (None, w)
                    | Some x \<Rightarrow> (Some (fst (createObjectURL w)), snd (createObjectURL w)));
         w2 = w1\<lparr>state := (state w1)\<lparr>isRecording := False, isPaused := False,
                                     audioBlob := b, audioUrl := u, volume := 0\<rparr>\<rparr>
     in (stopTracks w2, b))"

text \<open>
  The interval callback of lines 87 to 96: at the limit it calls \<^verbatim>\<open>stopRecording\<close> itself
  and drops the promise.
\<close>

definition timerTick :: "world \<Rightarrow> world" where
  "timerTick w =
    (let newTime = recordingTime (state w) + 1;
         w1 = (if MAX_RECORDING_TIME \<le> newTime then fst (stopRecording TickCb w) else w)
     in w1\<lparr>state := (state w1)\<lparr>recordingTime := newTime\<rparr>\<rparr>)"

text \<open>The volume interval of lines 99 to 107, with the average the analyser reports.\<close>

definition volumeSample :: "real \<Rightarrow> world \<Rightarrow> world" where
  "volumeSample average w =
    (if analyserRef w \<noteq> None
     then w\<lparr>state := (state w)\<lparr>volume := min (average / 128) 1\<rparr>\<rparr>
     else w)"

definition resetRecording :: "world \<Rightarrow> world" where
  "resetRecording w =
    (let w0 = w\<lparr>trace := trace w @ [ResetCall]\<rparr>;
         w1 = closeAudioContext (stopTracks (clearVolumeRef (clearTimerRef w0)));
         w2 = (case audioUrl (rendered w) of
                 None \<Rightarrow> w1
               | Some u \<Rightarrow> w1\<lparr>trace := trace w1 @ [RevokeObjectURL u]\<rparr>)
     in w2\<lparr>state := initialState, recorderRef := None, streamRef := None,
           audioContextRef := None, analyserRef := None\<rparr>)"

subsection \<open>The orchestrator: \<^verbatim>\<open>Recorder\<close>\<close>

text \<open>
  Every \<^verbatim>\<open>setSegments\<close> of the component copies the array and replaces one element by a
  patched copy of itself. The index is always a value \<^verbatim>\<open>currentSegment\<close> had, which stays
  below 3, the length of the array (lemma \<open>run_wellformed\<close>).
\<close>

definition patchSegment :: "nat \<Rightarrow> (Segment \<Rightarrow> Segment) \<Rightarrow> world \<Rightarrow> world" where
  "patchSegment i f w = w\<lparr>segments := (segments w)[i := f (segments w ! i)]\<rparr>"

definition currentSeg :: "world \<Rightarrow> Segment" where
  "currentSeg w = segments w ! currentSegment w"

text \<open>
  \<^verbatim>\<open>uploadSegment\<close> up to its \<^verbatim>\<open>await\<close>: the segment is set to uploading and
  \<^verbatim>\<open>uploadAudioSegment\<close> is called.
\<close>

definition uploadSegment :: "Blob \<Rightarrow> nat \<Rightarrow> world \<Rightarrow> world" where
  "uploadSegment b segmentIndex w =
    (let w1 = patchSegment segmentIndex (\<lambda>s. s\<lparr>status := Uploading\<rparr>) w
     in w1\<lparr>inFlight := inFlight w1 @ [(segmentIndex, b)],
           trace := trace w1 @ [UploadCall segmentIndex b]\<rparr>)"

text \<open>
  \<^verbatim>\<open>uploadSegment\<close> after its \<^verbatim>\<open>await\<close>, with the result of the upload client. A result
  that is no success is thrown as an \<^verbatim>\<open>Error\<close> and caught two lines below.
\<close>

definition uploadSegment_settled :: "nat \<Rightarrow> UploadResult \<Rightarrow> world \<Rightarrow> world" where
  "uploadSegment_settled segmentIndex result w =
    (if success result
     then patchSegment segmentIndex
            (\<lambda>s. s\<lparr>status := Uploaded, uploadUrl := orNull (res_url result)\<rparr>) w
     else patchSegment segmentIndex
            (\<lambda>s. s\<lparr>status := Error, retryCount := retryCount s + 1,
                   errorMsg := Some (orElse (res_error result) msgUploadFailed)\<rparr>) w)"

text \<open>The MIME correction of lines 114 to 123 (and 229 to 238).\<close>

definition correctBlob :: "Blob \<Rightarrow> Blob" where
  "correctBlob b =
    (if blobType b = ''audio/wav'' \<or> blobType b = ''''
     then b\<lparr>blobType := ''audio/webm''\<rparr>
     else b)"

text \<open>
  \<^verbatim>\<open>handleAutoStop\<close> after \<^verbatim>\<open>await stopRecording()\<close>: lines 114 to 170, with the
  \<^verbatim>\<open>currentSegment\<close> of its closure and the payload.
\<close>

definition handleAutoStop_resume :: "nat \<Rightarrow> Blob option \<Rightarrow> world \<Rightarrow> world" where
  "handleAutoStop_resume cur b w =
    (let correctedBlob = map_option correctBlob b;
         w1 = (case correctedBlob of
                 None \<Rightarrow> w
               | Some cb \<Rightarrow> uploadSegment cb cur (snd (createObjectURL w)))
     in case b of
          Some x \<Rightarrow>
            (let (u, w2) = createObjectURL w1;
                 w3 = patchSegment cur (\<lambda>s. s\<lparr>status := Recorded, blob := Some x, url := Some u\<rparr>) w2
             in uploadSegment x cur w3)
        | None \<Rightarrow>
            patchSegment cur (\<lambda>s. s\<lparr>status := Error, errorMsg := Some msgCaptureFailed\<rparr>) w1)"

text \<open>
  \<^verbatim>\<open>handleTouchEnd\<close> after \<^verbatim>\<open>await stopRecording()\<close>: lines 229 to 274. There is no
  \<^verbatim>\<open>else\<close> after line 274.
\<close>

definition handleTouchEnd_resume :: "nat \<Rightarrow> Blob option \<Rightarrow> world \<Rightarrow> world" where
  "handleTouchEnd_resume cur b w =
    (let correctedBlob = map_option correctBlob b;
         w1 = (case correctedBlob of
                 None \<Rightarrow> w
               | Some cb \<Rightarrow> uploadSegment cb cur (snd (createObjectURL w)))
     in case b of
          Some x \<Rightarrow>
            (let (u, w2) = createObjectURL w1;
                 w3 = patchSegment cur (\<lambda>s. s\<lparr>status := Recorded, blob := Some x, url := Some u\<rparr>) w2
             in uploadSegment x cur w3)
        | None \<Rightarrow> w1)"

text \<open>What the caller of \<^verbatim>\<open>stopRecording\<close> does once the promise has resolved.\<close>

definition resume :: "caller \<Rightarrow> Blob option \<Rightarrow> world \<Rightarrow> world" where
  "resume c b w =
    (case c of
       TickCb \<Rightarrow> w
     | AutoStopCb cur \<Rightarrow> handleAutoStop_resume cur b w
     | TouchEndCb cur \<Rightarrow> handleTouchEnd_resume cur b w)"

text \<open>\<^verbatim>\<open>handleAutoStop\<close>, lines 90 to 110, and on through the promise.\<close>

definition handleAutoStop :: "world \<Rightarrow> world" where
  "handleAutoStop w =
    (if \<not> isRecording (rendered w) then w
     else
       (let cur = currentSegment w;
            w1 = patchSegment cur (\<lambda>s. s\<lparr>status := Processing\<rparr>) w;
            (w2, p) = stopRecording (AutoStopCb cur) w1
        in case p of
             Awaiting \<Rightarrow> w2
           | Resolved b \<Rightarrow> resume (AutoStopCb cur) b w2))"

text \<open>The body of the effect of lines 82 to 87; it belongs to the render just committed.\<close>

definition autoStopEffect :: "world \<Rightarrow> world" where
  "autoStopEffect w =
    (if isRecording (rendered w) \<and> SEGMENT_DURATION \<le> recordingTime (rendered w)
     then handleAutoStop w
     else w)"

text \<open>
  A render: the state of the hook is committed, and the effect runs if one of its dependencies
  \<^verbatim>\<open>state.isRecording\<close>, \<^verbatim>\<open>state.recordingTime\<close> differs from the render before.
\<close>

definition render :: "world \<Rightarrow> world" where
  "render w =
    (let w1 = w\<lparr>rendered := state w\<rparr>
     in if isRecording (state w) \<noteq> isRecording (rendered w)
           \<or> recordingTime (state w) \<noteq> recordingTime (rendered w)
        then autoStopEffect w1
        else w1)"

text \<open>\<^verbatim>\<open>handleTouchStart\<close>: the hold timeout is set and captures \<^verbatim>\<open>currentSegment\<close>.\<close>

definition handleTouchStart :: "world \<Rightarrow> world" where
  "handleTouchStart w =
    (if status (currentSeg w) \<noteq> Pending \<and> status (currentSeg w) \<noteq> Error then w
     else
       w\<lparr>isHoldStarting := True,
         holdTimerRef := Some (nextHandle w),
         timers := timers w @ [(nextHandle w, HoldTimeout (currentSegment w))],
         nextHandle := nextHandle w + 1\<rparr>)"

text \<open>
  The callback of the hold timeout, lines 180 to 192, with the \<^verbatim>\<open>currentSegment\<close> it
  captured and the outcome of the microphone request.
\<close>

definition holdTimeout :: "nat \<Rightarrow> media_outcome \<Rightarrow> world \<Rightarrow> world" where
  "holdTimeout cur out w =
    (let w1 = w\<lparr>isHoldStarting := False, showGuide := False\<rparr>;
         w2 = patchSegment cur (\<lambda>s. s\<lparr>status := Recording\<rparr>) w1
     in startRecording out w2)"

text \<open>\<^verbatim>\<open>handleTouchEnd\<close>, lines 196 to 225, and on through the promise.\<close>

definition handleTouchEnd :: "world \<Rightarrow> world" where
  "handleTouchEnd w =
    (if isHoldStarting w
     then
       (let w1 = (case holdTimerRef w of None \<Rightarrow> w | Some h \<Rightarrow> clearTimer h w)
        in w1\<lparr>isHoldStarting := False\<rparr>)
     else if \<not> isRecording (rendered w) \<or> SEGMENT_DURATION \<le> recordingTime (rendered w)
     then w
     else
       (let cur = currentSegment w;
            w1 = patchSegment cur (\<lambda>s. s\<lparr>status := Processing\<rparr>) w;
            (w2, p) = stopRecording (TouchEndCb cur) w1
        in case p of
             Awaiting \<Rightarrow> w2
           | Resolved b \<Rightarrow> resume (TouchEndCb cur) b w2))"

definition handleManualStop :: "world \<Rightarrow> world" where
  "handleManualStop w = (if \<not> isRecording (rendered w) then w else handleTouchEnd w)"

definition handleRetryUpload :: "world \<Rightarrow> world" where
  "handleRetryUpload w =
    (case blob (currentSeg w) of
       None \<Rightarrow> w\<lparr>trace := trace w @ [Alert msgCannotRetry]\<rparr>
     | Some b \<Rightarrow>
         if MAX_RETRIES \<le> retryCount (currentSeg w)
         then w\<lparr>trace := trace w @ [Alert msgCannotRetry]\<rparr>
         else uploadSegment b (currentSegment w) w)"

definition handleRetry :: "world \<Rightarrow> world" where
  "handleRetry w =
    (if MAX_RETRIES \<le> retryCount (currentSeg w)
     then w\<lparr>trace := trace w @ [Alert msgTooManyRetries]\<rparr>
     else
       (let w1 = (case url (currentSeg w) of
                    None \<Rightarrow> w
                  | Some u \<Rightarrow> w\<lparr>trace := trace w @ [RevokeObjectURL u]\<rparr>);
            w2 = patchSegment (currentSegment w)
                   (\<lambda>s. s\<lparr>status := Pending, blob := None, url := None,
                          uploadUrl := None, errorMsg := None\<rparr>) w1
        in resetRecording w2))"

definition handleNextSegment :: "world \<Rightarrow> world" where
  "handleNextSegment w =
    (if currentSegment w < 2
     then resetRecording (w\<lparr>currentSegment := currentSegment w + 1\<rparr>)
     else w)"

text \<open>
  The condition under which the render offers the control that calls
  \<^verbatim>\<open>handleNextSegment\<close> (lines 418, 490 and 527).
\<close>

definition canRecord :: "world \<Rightarrow> bool" where
  "canRecord w = (status (currentSeg w) = Pending \<or> status (currentSeg w) = Error)"

definition nextSegmentOffered :: "world \<Rightarrow> bool" where
  "nextSegmentOffered w =
    (\<not> canRecord w \<and> status (currentSeg w) = Uploaded \<and> currentSegment w < 2)"

subsection \<open>Events\<close>

text \<open>
  What can happen to the component: the user's gestures (each one a handler), a live timer
  firing, the recorder calling back for a stop that is outstanding, an upload in flight
  settling. A timer, a callback or an upload that is not there does nothing.

  React renders after an event has queued its updates. For a gesture it does so before the
  next event is handled; the render that a callback from outside React asks for is only
  scheduled, and another event can come first. The model lets this happen for the 1 Hz
  interval: \<open>Tick\<close> is its callback together with the render, \<open>TickCallback\<close> the callback
  alone, the render left to the event that follows or to \<open>Render\<close>. For every other event the
  render is taken to follow at once (\<open>step\<close> ends with \<open>render\<close>), so that what a handler reads
  of the component's own state (\<^verbatim>\<open>segments\<close>, \<^verbatim>\<open>currentSegment\<close>, \<^verbatim>\<open>isHoldStarting\<close>) is
  that state itself; the interval callback writes nothing but the hook's state, which is why
  that state alone has a committed copy.
\<close>

datatype event =
    TouchStart
  | TouchEnd
  | ManualStop
  | RetryUpload
  | Retry
  | NextSegment
  | HoldElapsed nat media_outcome
  | Tick nat
  | TickCallback nat
  | Render
  | Volume nat real
  | RecorderStopped caller "Blob option"
  | UploadSettled nat Blob fetch_outcome

definition holdElapsed :: "nat \<Rightarrow> media_outcome \<Rightarrow> world \<Rightarrow> world" where
  "holdElapsed h out w =
    (case map_of (timers w) h of
       Some (HoldTimeout cur) \<Rightarrow> holdTimeout cur out (clearTimer h w)
     | _ \<Rightarrow> w)"

definition intervalFired :: "nat \<Rightarrow> world \<Rightarrow> world" where
  "intervalFired h w = (if map_of (timers w) h = Some TickInterval then timerTick w else w)"

definition tick :: "nat \<Rightarrow> world \<Rightarrow> world" where
  "tick h w = render (intervalFired h w)"

definition volumeTick :: "nat \<Rightarrow> real \<Rightarrow> world \<Rightarrow> world" where
  "volumeTick h average w =
    (if map_of (timers w) h = Some VolumeInterval then volumeSample average w else w)"

definition recorderStopped :: "caller \<Rightarrow> Blob option \<Rightarrow> world \<Rightarrow> world" where
  "recorderStopped c gb w =
    (if c \<in> set (stopping w)
     then
       (let (w1, b) = onRecorderStopped gb (w\<lparr>stopping := remove1 c (stopping w)\<rparr>)
        in resume c b w1)
     else w)"

definition uploadSettled :: "nat \<Rightarrow> Blob \<Rightarrow> fetch_outcome \<Rightarrow> world \<Rightarrow> world" where
  "uploadSettled i b out w =
    (if (i, b) \<in> set (inFlight w)
     then uploadSegment_settled i (uploadAudioSegment out)
            (w\<lparr>inFlight := remove1 (i, b) (inFlight w)\<rparr>)
     else w)"

fun step :: "event \<Rightarrow> world \<Rightarrow> world" where
  "step TouchStart w = render (handleTouchStart w)"
| "step TouchEnd w = render (handleTouchEnd w)"
| "step ManualStop w = render (handleManualStop w)"
| "step RetryUpload w = render (handleRetryUpload w)"
| "step Retry w = render (handleRetry w)"
| "step NextSegment w = render (handleNextSegment w)"
| "step (HoldElapsed h out) w = render (holdElapsed h out w)"
| "step (Tick h) w = tick h w"
| "step (TickCallback h) w = intervalFired h w"
| "step Render w = render w"
| "step (Volume h average) w = render (volumeTick h average w)"
| "step (RecorderStopped c gb) w = render (recorderStopped c gb w)"
| "step (UploadSettled i b out) w = render (uploadSettled i b out w)"

fun run :: "event list \<Rightarrow> world \<Rightarrow> world" where
  "run [] w = w"
| "run (e # es) w = run es (step e w)"

subsection \<open>Reachable states\<close>

text \<open>
  What holds of every state the component can reach from its initial one (lemma
  \<open>run_wellformed\<close>): three segments, a current position below 3, a recorder whenever the
  state says recording, no interval, audio context or stream without a recorder, and timer
  handles below the next fresh one.
\<close>

definition wellformed :: "world \<Rightarrow> bool" where
  "wellformed w =
    (length (segments w) = 3 \<and> currentSegment w < 3
     \<and> (isRecording (state w) \<longrightarrow> recorderRef w \<noteq> None)
     \<and> (recorderRef w = None \<longrightarrow>
           timerRef w = None \<and> volumeRef w = None \<and> audioContextRef w = None
           \<and> streamRef w = None)
     \<and> (\<forall>t \<in> set (timers w). fst t < nextHandle w))"

text \<open>The retry counts of the three segments, in order.\<close>

abbreviation retryCounts :: "world \<Rightarrow> nat list" where
  "retryCounts w \<equiv> map retryCount (segments w)"

subsection \<open>Scenarios\<close>

text \<open>
  Concrete runs from the initial state. The hold timeout gets handle 1, the stream of the first
  recording handle 2, its 1 Hz interval handle 6.
\<close>

text \<open>A payload as the recorder labels it, and the same payload under the corrected type.\<close>

definition blobA :: Blob where
  "blobA = \<lparr>blobType = ''audio/wav'', blobSize = 4096\<rparr>"

definition webmA :: Blob where
  "webmA = \<lparr>blobType = ''audio/webm'', blobSize = 4096\<rparr>"

definition okOutcome :: fetch_outcome where
  "okOutcome =
    Response True (Some ''https://cdn.example/audio/t1/segment_0.webm'')
      (Some ''audio/t1/segment_0.webm'')"

definition failOutcome :: fetch_outcome where
  "failOutcome = Response False None None"

text \<open>The user holds the button; the microphone is granted.\<close>

definition holdGranted :: "event list" where
  "holdGranted = [TouchStart, HoldElapsed 1 Granted]"

text \<open>Three seconds into the recording of segment 0.\<close>

definition recordingWorld :: world where
  "recordingWorld = run (holdGranted @ replicate 3 (Tick 6)) init"

text \<open>
  The user holds for 60 seconds, the recorder calls back twice (once for the tick's own
  \<^verbatim>\<open>stopRecording\<close>, once for \<^verbatim>\<open>handleAutoStop\<close>) and hands the payload over.
\<close>

definition heldSixtySeconds :: "event list" where
  "heldSixtySeconds =
    holdGranted @ replicate 60 (Tick 6) @
    [RecorderStopped TickCb (Some blobA), RecorderStopped (AutoStopCb 0) (Some blobA)]"

definition uploadingWorld :: world where
  "uploadingWorld = run heldSixtySeconds init"

definition successThenFailure :: world where
  "successThenFailure =
    run [UploadSettled 0 webmA okOutcome, UploadSettled 0 blobA failOutcome] uploadingWorld"

definition twoFailures :: world where
  "twoFailures =
    run [UploadSettled 0 webmA failOutcome, UploadSettled 0 blobA failOutcome] uploadingWorld"

definition threeFailures :: world where
  "threeFailures = run [RetryUpload, UploadSettled 0 blobA failOutcome] twoFailures"

text \<open>The user releases after three seconds and the recorder hands back nothing.\<close>

definition manualStopNoPayload :: world where
  "manualStopNoPayload = run [TouchEnd, RecorderStopped (TouchEndCb 0) None] recordingWorld"

text \<open>
  The user releases in the 60th second: the interval callback has run for the 60th time and
  the render it asked for has not happened yet when the release is handled. \<open>staleWorld\<close> is
  the state the release finds, \<open>bothStopsWorld\<close> the state after the release and its render,
  \<open>firstStopDone\<close> the state after the recorder has called back for the stop of the interval
  callback and for that of the release, \<open>bothStopsDone\<close> the state after it has called back for
  the stop of \<^verbatim>\<open>handleAutoStop\<close> as well.
\<close>

definition releasedInThe60thSecond :: "event list" where
  "releasedInThe60thSecond = holdGranted @ replicate 59 (Tick 6) @ [TickCallback 6, TouchEnd]"

definition staleWorld :: world where
  "staleWorld = run (holdGranted @ replicate 59 (Tick 6) @ [TickCallback 6]) init"

definition bothStopsWorld :: world where
  "bothStopsWorld = run releasedInThe60thSecond init"

definition firstStopDone :: world where
  "firstStopDone =
    run [RecorderStopped TickCb (Some blobA), RecorderStopped (TouchEndCb 0) (Some blobA)]
      bothStopsWorld"

definition bothStopsDone :: world where
  "bothStopsDone = run [RecorderStopped (AutoStopCb 0) (Some blobA)] firstStopDone"

text \<open>
  The button is pressed a second time before the first press is released (a second finger, or
  mouse and touch together), and both presses are released within the delay.
\<close>

definition pressedTwiceReleased :: "world \<Rightarrow> world" where
  "pressedTwiceReleased w = handleTouchEnd (handleTouchEnd (handleTouchStart (handleTouchStart w)))"

definition twoPresses :: "event list" where
  "twoPresses = [TouchStart, TouchStart, TouchEnd, TouchEnd]"

definition twoPressesReleased :: world where
  "twoPressesReleased = run twoPresses init"

section \<open>Properties\<close>

subsection \<open>Every reachable state is well formed\<close>

lemma wf_patchSegment: "wellformed w \<Longrightarrow> wellformed (patchSegment i f w)"
  by (simp add: wellformed_def patchSegment_def)

lemma wf_uploadSegment: "wellformed w \<Longrightarrow> wellformed (uploadSegment b i w)"
  by (simp add: wellformed_def uploadSegment_def patchSegment_def Let_def)

lemma wf_uploadSegment_settled: "wellformed w \<Longrightarrow> wellformed (uploadSegment_settled i r w)"
  by (simp add: wellformed_def uploadSegment_settled_def patchSegment_def)

lemma wf_createObjectURL: "wellformed w \<Longrightarrow> wellformed (snd (createObjectURL w))"
  by (auto simp add: wellformed_def createObjectURL_def)

lemma wf_createObjectURL_eq:
  "createObjectURL w = (u, w') \<Longrightarrow> wellformed w \<Longrightarrow> wellformed w'"
  using wf_createObjectURL[of w] by simp

lemma wf_startRecording: "wellformed w \<Longrightarrow> wellformed (startRecording out w)"
  by (auto simp add: wellformed_def startRecording_def Let_def split: media_outcome.splits)

lemma wf_stopRecording: "wellformed w \<Longrightarrow> wellformed (fst (stopRecording c w))"
  by (auto simp add: wellformed_def stopRecording_def clearTimerRef_def clearVolumeRef_def
      closeAudioContext_def clearTimer_def Let_def split: option.splits)

lemma wf_onRecorderStopped: "wellformed w \<Longrightarrow> wellformed (fst (onRecorderStopped gb w))"
  by (auto simp add: wellformed_def onRecorderStopped_def stopTracks_def createObjectURL_def
      Let_def split: option.splits prod.splits)

lemma wf_resetRecording: "wellformed w \<Longrightarrow> wellformed (resetRecording w)"
  by (auto simp add: wellformed_def resetRecording_def clearTimerRef_def clearVolumeRef_def
      closeAudioContext_def stopTracks_def clearTimer_def initialState_def Let_def
      split: option.splits)

lemma wf_timerTick: "wellformed w \<Longrightarrow> wellformed (timerTick w)"
  using wf_stopRecording[of w TickCb]
  by (auto simp add: wellformed_def timerTick_def Let_def)

lemma wf_handleAutoStop_resume:
  "wellformed w \<Longrightarrow> wellformed (handleAutoStop_resume cur b w)"
  by (cases b)
     (auto simp add: handleAutoStop_resume_def Let_def split: prod.splits
        intro!: wf_patchSegment wf_uploadSegment wf_createObjectURL
        elim: wf_createObjectURL_eq)

lemma wf_handleTouchEnd_resume:
  "wellformed w \<Longrightarrow> wellformed (handleTouchEnd_resume cur b w)"
  by (cases b)
     (auto simp add: handleTouchEnd_resume_def Let_def split: prod.splits
        intro!: wf_patchSegment wf_uploadSegment wf_createObjectURL
        elim: wf_createObjectURL_eq)

lemma wf_resume: "wellformed w \<Longrightarrow> wellformed (resume c b w)"
  by (cases c) (simp_all add: resume_def wf_handleAutoStop_resume wf_handleTouchEnd_resume)

lemma wf_handleAutoStop: "wellformed w \<Longrightarrow> wellformed (handleAutoStop w)"
  using wf_stopRecording[of "patchSegment (currentSegment w) (\<lambda>s. s\<lparr>status := Processing\<rparr>) w"
      "AutoStopCb (currentSegment w)"]
  by (auto simp add: handleAutoStop_def Let_def wf_patchSegment wf_resume
      split: prod.splits promise.splits)

lemma wf_handleTouchEnd: "wellformed w \<Longrightarrow> wellformed (handleTouchEnd w)"
  using wf_stopRecording[of "patchSegment (currentSegment w) (\<lambda>s. s\<lparr>status := Processing\<rparr>) w"
      "TouchEndCb (currentSegment w)"]
  by (auto simp add: handleTouchEnd_def Let_def wf_patchSegment wf_resume clearTimer_def
      wellformed_def[of "_\<lparr>isHoldStarting := _\<rparr>"] wellformed_def[of w]
      split: prod.splits promise.splits option.splits)

lemma wf_handleTouchStart: "wellformed w \<Longrightarrow> wellformed (handleTouchStart w)"
  by (auto simp add: handleTouchStart_def wellformed_def)

lemma wf_handleManualStop: "wellformed w \<Longrightarrow> wellformed (handleManualStop w)"
  by (simp add: handleManualStop_def wf_handleTouchEnd)

lemma wf_handleRetryUpload: "wellformed w \<Longrightarrow> wellformed (handleRetryUpload w)"
  by (auto simp add: handleRetryUpload_def wf_uploadSegment
      wellformed_def[of "_\<lparr>trace := _\<rparr>"] wellformed_def[of w] split: option.splits)

lemma wf_handleRetry: "wellformed w \<Longrightarrow> wellformed (handleRetry w)"
proof -
  assume wf: "wellformed w"
  then have "wellformed (w\<lparr>trace := t\<rparr>)" for t by (simp add: wellformed_def)
  then show ?thesis using wf
    by (auto simp add: handleRetry_def Let_def split: option.splits
        intro!: wf_resetRecording wf_patchSegment)
qed

lemma wf_handleNextSegment: "wellformed w \<Longrightarrow> wellformed (handleNextSegment w)"
proof -
  assume wf: "wellformed w"
  then have "currentSegment w < 2 \<Longrightarrow> wellformed (w\<lparr>currentSegment := currentSegment w + 1\<rparr>)"
    by (simp add: wellformed_def)
  then show ?thesis using wf
    by (auto simp add: handleNextSegment_def intro!: wf_resetRecording)
qed

lemma wf_holdElapsed: "wellformed w \<Longrightarrow> wellformed (holdElapsed h out w)"
proof -
  assume wf: "wellformed w"
  then have "wellformed ((clearTimer h w)\<lparr>isHoldStarting := False, showGuide := False\<rparr>)"
    by (auto simp add: wellformed_def clearTimer_def)
  then show ?thesis using wf
    by (auto simp add: holdElapsed_def holdTimeout_def Let_def
        split: option.splits timer.splits intro!: wf_startRecording wf_patchSegment)
qed

lemma wf_intervalFired: "wellformed w \<Longrightarrow> wellformed (intervalFired h w)"
  by (simp add: intervalFired_def wf_timerTick)

lemma wf_volumeTick: "wellformed w \<Longrightarrow> wellformed (volumeTick h a w)"
  by (auto simp add: volumeTick_def volumeSample_def wellformed_def)

lemma wf_recorderStopped: "wellformed w \<Longrightarrow> wellformed (recorderStopped c gb w)"
proof -
  assume wf: "wellformed w"
  then have "wellformed (w\<lparr>stopping := remove1 c (stopping w)\<rparr>)"
    by (simp add: wellformed_def)
  from wf_onRecorderStopped[OF this, of gb] show ?thesis using wf
    by (auto simp add: recorderStopped_def Let_def wf_resume split: prod.splits)
qed

lemma wf_uploadSettled: "wellformed w \<Longrightarrow> wellformed (uploadSettled i b out w)"
proof -
  assume wf: "wellformed w"
  then have "wellformed (w\<lparr>inFlight := remove1 (i, b) (inFlight w)\<rparr>)"
    by (simp add: wellformed_def)
  then show ?thesis using wf
    by (auto simp add: uploadSettled_def wf_uploadSegment_settled)
qed

lemma wf_render: "wellformed w \<Longrightarrow> wellformed (render w)"
proof -
  assume wf: "wellformed w"
  then have "wellformed (w\<lparr>rendered := state w\<rparr>)" by (simp add: wellformed_def)
  then show ?thesis
    by (simp add: render_def autoStopEffect_def Let_def wf_handleAutoStop)
qed

lemma wf_step: "wellformed w \<Longrightarrow> wellformed (step e w)"
  by (cases e)
     (simp_all add: tick_def wf_render wf_handleTouchStart wf_handleTouchEnd wf_handleManualStop
        wf_handleRetryUpload wf_handleRetry wf_handleNextSegment wf_holdElapsed
        wf_intervalFired wf_volumeTick wf_recorderStopped wf_uploadSettled)

lemma wf_init: "wellformed init"
  by (simp add: wellformed_def init_def initialState_def)

lemma run_wellformed_from: "wellformed w \<Longrightarrow> wellformed (run es w)"
  by (induction es arbitrary: w) (simp_all add: wf_step)

lemma run_wellformed: "wellformed (run es init)"
  by (simp add: run_wellformed_from wf_init)

lemma run_append: "run (es @ fs) w = run fs (run es w)"
  by (induction es arbitrary: w) simp_all

subsection \<open>Timers\<close>

lemma map_of_filter_other: "map_of (filter (\<lambda>t. fst t \<noteq> h) ts) h = None"
  by (induction ts) auto


subsection \<open>What the steps of a stop leave alone\<close>

lemma clearTimerRef_fields:
  "state (clearTimerRef w) = state w \<and> rendered (clearTimerRef w) = rendered w
   \<and> recorderRef (clearTimerRef w) = recorderRef w
   \<and> streamRef (clearTimerRef w) = streamRef w \<and> volumeRef (clearTimerRef w) = volumeRef w
   \<and> audioContextRef (clearTimerRef w) = audioContextRef w
   \<and> liveStreams (clearTimerRef w) = liveStreams w
   \<and> openContexts (clearTimerRef w) = openContexts w
   \<and> stopping (clearTimerRef w) = stopping w \<and> trace (clearTimerRef w) = trace w
   \<and> isHoldStarting (clearTimerRef w) = isHoldStarting w
   \<and> nextHandle (clearTimerRef w) = nextHandle w
   \<and> segments (clearTimerRef w) = segments w
   \<and> currentSegment (clearTimerRef w) = currentSegment w
   \<and> inFlight (clearTimerRef w) = inFlight w
   \<and> timerRef (clearTimerRef w) = None"
  by (simp add: clearTimerRef_def clearTimer_def split: option.splits)

lemma clearVolumeRef_fields:
  "state (clearVolumeRef w) = state w \<and> rendered (clearVolumeRef w) = rendered w
   \<and> recorderRef (clearVolumeRef w) = recorderRef w
   \<and> streamRef (clearVolumeRef w) = streamRef w \<and> timerRef (clearVolumeRef w) = timerRef w
   \<and> audioContextRef (clearVolumeRef w) = audioContextRef w
   \<and> liveStreams (clearVolumeRef w) = liveStreams w
   \<and> openContexts (clearVolumeRef w) = openContexts w
   \<and> stopping (clearVolumeRef w) = stopping w \<and> trace (clearVolumeRef w) = trace w
   \<and> isHoldStarting (clearVolumeRef w) = isHoldStarting w
   \<and> nextHandle (clearVolumeRef w) = nextHandle w
   \<and> segments (clearVolumeRef w) = segments w
   \<and> currentSegment (clearVolumeRef w) = currentSegment w
   \<and> inFlight (clearVolumeRef w) = inFlight w
   \<and> volumeRef (clearVolumeRef w) = None"
  by (simp add: clearVolumeRef_def clearTimer_def split: option.splits)

lemma closeAudioContext_fields:
  "state (closeAudioContext w) = state w \<and> rendered (closeAudioContext w) = rendered w
   \<and> recorderRef (closeAudioContext w) = recorderRef w
   \<and> streamRef (closeAudioContext w) = streamRef w
   \<and> timerRef (closeAudioContext w) = timerRef w
   \<and> volumeRef (closeAudioContext w) = volumeRef w
   \<and> audioContextRef (closeAudioContext w) = audioContextRef w
   \<and> liveStreams (closeAudioContext w) = liveStreams w
   \<and> timers (closeAudioContext w) = timers w
   \<and> stopping (closeAudioContext w) = stopping w \<and> trace (closeAudioContext w) = trace w
   \<and> isHoldStarting (closeAudioContext w) = isHoldStarting w
   \<and> nextHandle (closeAudioContext w) = nextHandle w
   \<and> segments (closeAudioContext w) = segments w
   \<and> currentSegment (closeAudioContext w) = currentSegment w
   \<and> inFlight (closeAudioContext w) = inFlight w"
  by (simp add: closeAudioContext_def split: option.splits)

lemmas stop_fields = clearTimerRef_fields clearVolumeRef_fields closeAudioContext_fields

lemma state_stopRecording: "state (fst (stopRecording c w)) = state w"
  by (simp add: stopRecording_def stop_fields Let_def)

lemma rendered_stopRecording: "rendered (fst (stopRecording c w)) = rendered w"
  by (simp add: stopRecording_def stop_fields Let_def)

lemma trace_stopRecording: "trace (fst (stopRecording c w)) = trace w @ [StopCall c]"
  by (simp add: stopRecording_def stop_fields Let_def)


lemma segments_stopRecording: "segments (fst (stopRecording c w)) = segments w"
  by (simp add: stopRecording_def stop_fields Let_def)

lemma currentSegment_stopRecording:
  "currentSegment (fst (stopRecording c w)) = currentSegment w"
  by (simp add: stopRecording_def stop_fields Let_def)

subsection \<open>Evaluating the scenarios\<close>

lemmas model_defs =
  init_def initialState_def initialSegment_def blobA_def webmA_def okOutcome_def failOutcome_def
  holdGranted_def twoPresses_def
  handleTouchStart_def handleTouchEnd_def handleManualStop_def handleAutoStop_def
  handleRetryUpload_def handleRetry_def handleNextSegment_def
  handleAutoStop_resume_def handleTouchEnd_resume_def resume_def autoStopEffect_def
  render_def holdElapsed_def holdTimeout_def intervalFired_def tick_def volumeTick_def recorderStopped_def uploadSettled_def
  uploadSegment_def uploadSegment_settled_def uploadAudioSegment_def uploadViaBackend_def
  patchSegment_def currentSeg_def correctBlob_def orElse_def orNull_def
  startRecording_def stopRecording_def onRecorderStopped_def timerTick_def volumeSample_def
  resetRecording_def clearTimerRef_def clearVolumeRef_def closeAudioContext_def stopTracks_def
  clearTimer_def createObjectURL_def
  SEGMENT_DURATION_def MAX_RETRIES_def MAX_RECORDING_TIME_def

lemma recordingWorld_eq:
  "recordingWorld =
    \<lparr>state = \<lparr>isRecording = True, isPaused = False, recordingTime = 3, volume = 0,
              error = None, audioBlob = None, audioUrl = None\<rparr>,
     rendered = \<lparr>isRecording = True, isPaused = False, recordingTime = 3, volume = 0,
              error = None, audioBlob = None, audioUrl = None\<rparr>,
     recorderRef = Some 5, streamRef = Some 2, timerRef = Some 6, volumeRef = Some 7,
     audioContextRef = Some 3, analyserRef = Some 4, currentSegment = 0,
     segments = [(initialSegment 0)\<lparr>status := Recording\<rparr>, initialSegment 1, initialSegment 2],
     isHoldStarting = False, showGuide = False, holdTimerRef = Some 1,
     timers = [(6, TickInterval), (7, VolumeInterval)], liveStreams = [2],
     openContexts = [3], nextHandle = 8, stopping = [], inFlight = [],
     trace = [StartCall]\<rparr>"
  unfolding recordingWorld_def by code_simp

lemma uploadingWorld_eq:
  "uploadingWorld =
    \<lparr>state = \<lparr>isRecording = False, isPaused = False, recordingTime = 60, volume = 0,
              error = None, audioBlob = Some blobA, audioUrl = Some 9\<rparr>,
     rendered = \<lparr>isRecording = False, isPaused = False, recordingTime = 60, volume = 0,
              error = None, audioBlob = Some blobA, audioUrl = Some 9\<rparr>,
     recorderRef = Some 5, streamRef = Some 2, timerRef = None, volumeRef = None,
     audioContextRef = Some 3, analyserRef = Some 4, currentSegment = 0,
     segments =
       [\<lparr>seg_id = 0, status = Uploading, blob = Some blobA, url = Some 11, uploadUrl = None,
         retryCount = 0, errorMsg = None\<rparr>,
        initialSegment 1, initialSegment 2],
     isHoldStarting = False, showGuide = False, holdTimerRef = Some 1,
     timers = [], liveStreams = [], openContexts = [], nextHandle = 12,
     stopping = [], inFlight = [(0, webmA), (0, blobA)],
     trace = [StartCall, StopCall TickCb, StopCall (AutoStopCb 0),
              UploadCall 0 webmA, UploadCall 0 blobA]\<rparr>"
  unfolding uploadingWorld_def heldSixtySeconds_def by code_simp

lemma successThenFailure_eq:
  "successThenFailure =
     uploadingWorld
       \<lparr>segments :=
          [\<lparr>seg_id = 0, status = Error, blob = Some blobA, url = Some 11,
            uploadUrl = Some ''https://cdn.example/audio/t1/segment_0.webm'',
            retryCount = 1, errorMsg = Some msgUploadFailed\<rparr>,
           initialSegment 1, initialSegment 2],
        inFlight := []\<rparr>"
  by (simp add: successThenFailure_def render_def Let_def uploadingWorld_eq uploadSettled_def
      uploadSegment_settled_def uploadAudioSegment_def uploadViaBackend_def patchSegment_def
      okOutcome_def failOutcome_def orNull_def orElse_def msgUploadFailed_def
      blobA_def webmA_def)

lemma twoFailures_eq:
  "twoFailures =
     uploadingWorld
       \<lparr>segments :=
          [\<lparr>seg_id = 0, status = Error, blob = Some blobA, url = Some 11, uploadUrl = None,
            retryCount = 2, errorMsg = Some msgUploadFailed\<rparr>,
           initialSegment 1, initialSegment 2],
        inFlight := []\<rparr>"
  by (simp add: twoFailures_def render_def Let_def uploadingWorld_eq uploadSettled_def
      uploadSegment_settled_def uploadAudioSegment_def uploadViaBackend_def patchSegment_def
      failOutcome_def orElse_def msgUploadFailed_def blobA_def webmA_def)

lemma threeFailures_eq:
  "threeFailures =
     uploadingWorld
       \<lparr>segments :=
          [\<lparr>seg_id = 0, status = Error, blob = Some blobA, url = Some 11, uploadUrl = None,
            retryCount = 3, errorMsg = Some msgUploadFailed\<rparr>,
           initialSegment 1, initialSegment 2],
        inFlight := [],
        trace := trace uploadingWorld @ [UploadCall 0 blobA]\<rparr>"
  by (simp add: threeFailures_def render_def Let_def twoFailures_eq uploadingWorld_eq uploadSettled_def
      handleRetryUpload_def currentSeg_def uploadSegment_def MAX_RETRIES_def
      uploadSegment_settled_def uploadAudioSegment_def uploadViaBackend_def patchSegment_def
      failOutcome_def orElse_def msgUploadFailed_def)

lemma manualStopNoPayload_eq:
  "manualStopNoPayload =
    \<lparr>state = \<lparr>isRecording = False, isPaused = False, recordingTime = 3, volume = 0,
              error = None, audioBlob = None, audioUrl = None\<rparr>,
     rendered = \<lparr>isRecording = False, isPaused = False, recordingTime = 3, volume = 0,
              error = None, audioBlob = None, audioUrl = None\<rparr>,
     recorderRef = Some 5, streamRef = Some 2, timerRef = None, volumeRef = None,
     audioContextRef = Some 3, analyserRef = Some 4, currentSegment = 0,
     segments = [(initialSegment 0)\<lparr>status := Processing\<rparr>, initialSegment 1, initialSegment 2],
     isHoldStarting = False, showGuide = False, holdTimerRef = Some 1,
     timers = [], liveStreams = [], openContexts = [], nextHandle = 8,
     stopping = [], inFlight = [], trace = [StartCall, StopCall (TouchEndCb 0)]\<rparr>"
  by (simp add: manualStopNoPayload_def recordingWorld_eq model_defs Let_def)

lemma staleWorld_eq:
  "staleWorld =
    \<lparr>state = \<lparr>isRecording = True, isPaused = False, recordingTime = 60, volume = 0,
              error = None, audioBlob = None, audioUrl = None\<rparr>,
     rendered = \<lparr>isRecording = True, isPaused = False, recordingTime = 59, volume = 0,
              error = None, audioBlob = None, audioUrl = None\<rparr>,
     recorderRef = Some 5, streamRef = Some 2, timerRef = None, volumeRef = None,
     audioContextRef = Some 3, analyserRef = Some 4, currentSegment = 0,
     segments = [(initialSegment 0)\<lparr>status := Recording\<rparr>, initialSegment 1, initialSegment 2],
     isHoldStarting = False, showGuide = False, holdTimerRef = Some 1,
     timers = [], liveStreams = [2], openContexts = [], nextHandle = 8,
     stopping = [TickCb], inFlight = [], trace = [StartCall, StopCall TickCb]\<rparr>"
  unfolding staleWorld_def by code_simp

lemma bothStopsWorld_eq:
  "bothStopsWorld =
    \<lparr>state = \<lparr>isRecording = True, isPaused = False, recordingTime = 60, volume = 0,
              error = None, audioBlob = None, audioUrl = None\<rparr>,
     rendered = \<lparr>isRecording = True, isPaused = False, recordingTime = 60, volume = 0,
              error = None, audioBlob = None, audioUrl = None\<rparr>,
     recorderRef = Some 5, streamRef = Some 2, timerRef = None, volumeRef = None,
     audioContextRef = Some 3, analyserRef = Some 4, currentSegment = 0,
     segments = [(initialSegment 0)\<lparr>status := Processing\<rparr>, initialSegment 1, initialSegment 2],
     isHoldStarting = False, showGuide = False, holdTimerRef = Some 1,
     timers = [], liveStreams = [2], openContexts = [], nextHandle = 8,
     stopping = [TickCb, TouchEndCb 0, AutoStopCb 0], inFlight = [],
     trace = [StartCall, StopCall TickCb, StopCall (TouchEndCb 0), StopCall (AutoStopCb 0)]\<rparr>"
  unfolding bothStopsWorld_def releasedInThe60thSecond_def by code_simp

lemma firstStopDone_eq:
  "firstStopDone =
    \<lparr>state = \<lparr>isRecording = False, isPaused = False, recordingTime = 60, volume = 0,
              error = None, audioBlob = Some blobA, audioUrl = Some 9\<rparr>,
     rendered = \<lparr>isRecording = False, isPaused = False, recordingTime = 60, volume = 0,
              error = None, audioBlob = Some blobA, audioUrl = Some 9\<rparr>,
     recorderRef = Some 5, streamRef = Some 2, timerRef = None, volumeRef = None,
     audioContextRef = Some 3, analyserRef = Some 4, currentSegment = 0,
     segments =
       [\<lparr>seg_id = 0, status = Uploading, blob = Some blobA, url = Some 11, uploadUrl = None,
         retryCount = 0, errorMsg = None\<rparr>,
        initialSegment 1, initialSegment 2],
     isHoldStarting = False, showGuide = False, holdTimerRef = Some 1,
     timers = [], liveStreams = [], openContexts = [], nextHandle = 12,
     stopping = [AutoStopCb 0], inFlight = [(0, webmA), (0, blobA)],
     trace = [StartCall, StopCall TickCb, StopCall (TouchEndCb 0), StopCall (AutoStopCb 0),
              UploadCall 0 webmA, UploadCall 0 blobA]\<rparr>"
  unfolding firstStopDone_def bothStopsWorld_def releasedInThe60thSecond_def by code_simp

lemma bothStopsDone_eq:
  "bothStopsDone =
    \<lparr>state = \<lparr>isRecording = False, isPaused = False, recordingTime = 60, volume = 0,
              error = None, audioBlob = Some blobA, audioUrl = Some 12\<rparr>,
     rendered = \<lparr>isRecording = False, isPaused = False, recordingTime = 60, volume = 0,
              error = None, audioBlob = Some blobA, audioUrl = Some 12\<rparr>,
     recorderRef = Some 5, streamRef = Some 2, timerRef = None, volumeRef = None,
     audioContextRef = Some 3, analyserRef = Some 4, currentSegment = 0,
     segments =
       [\<lparr>seg_id = 0, status = Uploading, blob = Some blobA, url = Some 14, uploadUrl = None,
         retryCount = 0, errorMsg = None\<rparr>,
        initialSegment 1, initialSegment 2],
     isHoldStarting = False, showGuide = False, holdTimerRef = Some 1,
     timers = [], liveStreams = [], openContexts = [], nextHandle = 15,
     stopping = [], inFlight = [(0, webmA), (0, blobA), (0, webmA), (0, blobA)],
     trace = [StartCall, StopCall TickCb, StopCall (TouchEndCb 0), StopCall (AutoStopCb 0),
              UploadCall 0 webmA, UploadCall 0 blobA, UploadCall 0 webmA, UploadCall 0 blobA]\<rparr>"
  unfolding bothStopsDone_def firstStopDone_def bothStopsWorld_def releasedInThe60thSecond_def
  by code_simp

lemma twoPressesReleased_eq:
  "twoPressesReleased =
     init\<lparr>holdTimerRef := Some 2, timers := [(1, HoldTimeout 0)], nextHandle := 3\<rparr>"
  unfolding twoPressesReleased_def twoPresses_def by code_simp

lemma scenarios_reachable:
  "uploadingWorld = run heldSixtySeconds init
   \<and> successThenFailure =
       run (heldSixtySeconds @
            [UploadSettled 0 webmA okOutcome, UploadSettled 0 blobA failOutcome]) init
   \<and> threeFailures =
       run (heldSixtySeconds @
            [UploadSettled 0 webmA failOutcome, UploadSettled 0 blobA failOutcome] @
            [RetryUpload, UploadSettled 0 blobA failOutcome]) init
   \<and> manualStopNoPayload =
       run (holdGranted @ replicate 3 (Tick 6) @
            [TouchEnd, RecorderStopped (TouchEndCb 0) None]) init
   \<and> bothStopsWorld = run [TouchEnd] staleWorld
   \<and> bothStopsDone =
       run (releasedInThe60thSecond @
            [RecorderStopped TickCb (Some blobA), RecorderStopped (TouchEndCb 0) (Some blobA)] @
            [RecorderStopped (AutoStopCb 0) (Some blobA)]) init"
proof -
  have split: "releasedInThe60thSecond
      = (holdGranted @ replicate 59 (Tick 6) @ [TickCallback 6]) @ [TouchEnd]"
    by (simp add: releasedInThe60thSecond_def)
  have "bothStopsWorld = run [TouchEnd] staleWorld"
    unfolding bothStopsWorld_def staleWorld_def split by (rule run_append)
  then show ?thesis
    unfolding uploadingWorld_def successThenFailure_def threeFailures_def twoFailures_def
      manualStopNoPayload_def recordingWorld_def bothStopsDone_def firstStopDone_def
      bothStopsWorld_def run_append
    by (intro conjI refl)
qed

subsection \<open>Upload failure\<close>

text \<open>
  Claim C10. When an upload of a segment fails, \<^verbatim>\<open>uploadSegment\<close> changes that segment's
  status (to error), its retry count (by one) and its error message, and nothing else: its
  payload, its preview URL, its remote URL and its id stay, so the payload is there for a
  retry of the upload; every other segment and every other part of the state stay as they
  were.
\<close>

theorem upload_failure_frame:
  assumes "\<not> success result" and "i < length (segments w)"
  shows
    "uploadSegment_settled i result w =
       w\<lparr>segments := (segments w)[i := (segments w ! i)
            \<lparr>status := Error, retryCount := retryCount (segments w ! i) + 1,
             errorMsg := Some (orElse (res_error result) msgUploadFailed)\<rparr>]\<rparr>
     \<and> status (segments (uploadSegment_settled i result w) ! i) = Error
     \<and> retryCount (segments (uploadSegment_settled i result w) ! i)
         = retryCount (segments w ! i) + 1
     \<and> blob (segments (uploadSegment_settled i result w) ! i) = blob (segments w ! i)
     \<and> url (segments (uploadSegment_settled i result w) ! i) = url (segments w ! i)
     \<and> uploadUrl (segments (uploadSegment_settled i result w) ! i) = uploadUrl (segments w ! i)
     \<and> seg_id (segments (uploadSegment_settled i result w) ! i) = seg_id (segments w ! i)
     \<and> length (segments (uploadSegment_settled i result w)) = length (segments w)
     \<and> (\<forall>j. j \<noteq> i \<longrightarrow>
           segments (uploadSegment_settled i result w) ! j = segments w ! j)"
  using assms by (simp add: uploadSegment_settled_def patchSegment_def)

theorem upload_failure_frame_witness:
  "\<not> success (uploadAudioSegment failOutcome) \<and> 0 < length (segments uploadingWorld)
   \<and> status (segments (uploadSegment_settled 0 (uploadAudioSegment failOutcome)
        uploadingWorld) ! 0) = Error
   \<and> retryCount (segments (uploadSegment_settled 0 (uploadAudioSegment failOutcome)
        uploadingWorld) ! 0) = 1
   \<and> blob (segments (uploadSegment_settled 0 (uploadAudioSegment failOutcome)
        uploadingWorld) ! 0) = Some blobA
   \<and> url (segments (uploadSegment_settled 0 (uploadAudioSegment failOutcome)
        uploadingWorld) ! 0) = Some 11
   \<and> length (segments (uploadSegment_settled 0 (uploadAudioSegment failOutcome)
        uploadingWorld)) = 3"
proof -
  have f: "\<not> success (uploadAudioSegment failOutcome)"
    by (simp add: uploadAudioSegment_def uploadViaBackend_def failOutcome_def)
  have l: "0 < length (segments uploadingWorld)"
    by (simp add: uploadingWorld_eq)
  show ?thesis
    using upload_failure_frame[OF f l] f l
    by (simp add: uploadingWorld_eq)
qed

subsection \<open>Starting the capture\<close>

lemma start_messages_distinct:
  "msgPermissionDenied \<noteq> msgNoDevice \<and> msgPermissionDenied \<noteq> msgStartGeneric
   \<and> msgNoDevice \<noteq> msgStartGeneric"
  by (simp add: msgPermissionDenied_def msgNoDevice_def msgStartGeneric_def)

text \<open>
  Claim C8. If the microphone request of \<^verbatim>\<open>startRecording\<close> is rejected, the state of the
  session is as before but for \<^verbatim>\<open>error\<close>: \<^verbatim>\<open>isRecording\<close> is what it was (so it stays
  false), no timer is started and no ref is written. \<^verbatim>\<open>error\<close> holds a text that tells a
  refused permission (\<^verbatim>\<open>NotAllowedError\<close>) from a missing device (\<^verbatim>\<open>NotFoundError\<close>) from
  any other failure: the three texts differ.
\<close>

theorem start_rejected_sets_error_only:
  "startRecording (Rejected err) w =
     w\<lparr>state := (state w)\<lparr>error := Some (startErrorMessage err)\<rparr>,
       trace := trace w @ [StartCall]\<rparr>
   \<and> isRecording (state (startRecording (Rejected err) w)) = isRecording (state w)
   \<and> timers (startRecording (Rejected err) w) = timers w
   \<and> timerRef (startRecording (Rejected err) w) = timerRef w
   \<and> volumeRef (startRecording (Rejected err) w) = volumeRef w
   \<and> error (state (startRecording (Rejected err) w)) = Some (startErrorMessage err)
   \<and> startErrorMessage (DOMException ''NotAllowedError'') = msgPermissionDenied
   \<and> startErrorMessage (DOMException ''NotFoundError'') = msgNoDevice
   \<and> startErrorMessage OtherError = msgStartGeneric
   \<and> (name \<noteq> ''NotAllowedError'' \<and> name \<noteq> ''NotFoundError'' \<longrightarrow>
        startErrorMessage (DOMException name) = msgStartGeneric)
   \<and> msgPermissionDenied \<noteq> msgNoDevice \<and> msgPermissionDenied \<noteq> msgStartGeneric
   \<and> msgNoDevice \<noteq> msgStartGeneric"
  using start_messages_distinct
  by (simp add: startRecording_def startErrorMessage_def Let_def)

theorem start_rejected_sets_error_only_witness:
  "''AbortError'' \<noteq> ''NotAllowedError'' \<and> ''AbortError'' \<noteq> ''NotFoundError''
   \<and> startErrorMessage (DOMException ''AbortError'') = msgStartGeneric
   \<and> \<not> isRecording (state (startRecording (Rejected (DOMException ''NotAllowedError'')) init))
   \<and> timers (startRecording (Rejected (DOMException ''NotAllowedError'')) init) = []
   \<and> error (state (startRecording (Rejected (DOMException ''NotAllowedError'')) init))
       = Some msgPermissionDenied
   \<and> error (state (startRecording (Rejected (DOMException ''NotFoundError'')) init))
       = Some msgNoDevice"
  using start_rejected_sets_error_only[of "DOMException ''NotAllowedError''" init "''AbortError''"]
    start_rejected_sets_error_only[of "DOMException ''NotFoundError''" init "''AbortError''"]
  by (simp add: init_def initialState_def)

subsection \<open>Stopping the capture\<close>

lemma stopRecording_without_recorder:
  "recorderRef w = None \<Longrightarrow>
   stopRecording c w =
     (closeAudioContext (clearVolumeRef (clearTimerRef (w\<lparr>trace := trace w @ [StopCall c]\<rparr>))),
      Resolved None)"
  by (simp add: stopRecording_def stop_fields Let_def)

lemma stopRecording_with_recorder:
  "recorderRef w \<noteq> None \<Longrightarrow>
   stopRecording c w =
     ((closeAudioContext (clearVolumeRef (clearTimerRef (w\<lparr>trace := trace w @ [StopCall c]\<rparr>))))
        \<lparr>stopping := stopping w @ [c]\<rparr>,
      Awaiting)"
  by (simp add: stopRecording_def stop_fields Let_def)










lemma recorderRef_stopRecording: "recorderRef (fst (stopRecording c w)) = recorderRef w"
  by (simp add: stopRecording_def stop_fields Let_def)





subsection \<open>The hold gesture\<close>

lemma map_of_append_fresh:
  "\<forall>t \<in> set ts. fst t < (n::nat) \<Longrightarrow> map_of (ts @ [(n, x)]) n = Some x"
  by (induction ts) auto

lemma map_of_append_other:
  "\<forall>t \<in> set ts. fst t < (n::nat) \<Longrightarrow> map_of (ts @ [(n, x)]) h = (if h = n then Some x else map_of ts h)"
  by (induction ts) auto

text \<open>
  One press on a segment that is pending or in error, released before the timeout has run:
  the timeout is cleared and can no longer run, and the state of the session, the segments
  and the effects so far are those from before the press.
\<close>

lemma single_press_released_early:
  assumes "status (currentSeg w) = Pending \<or> status (currentSeg w) = Error"
  shows
    "handleTouchEnd (handleTouchStart w) =
       w\<lparr>isHoldStarting := False, holdTimerRef := Some (nextHandle w),
         timers := filter (\<lambda>t. fst t \<noteq> nextHandle w) (timers w),
         nextHandle := nextHandle w + 1\<rparr>
     \<and> map_of (timers (handleTouchEnd (handleTouchStart w))) (nextHandle w) = None
     \<and> holdElapsed (nextHandle w) out (handleTouchEnd (handleTouchStart w))
         = handleTouchEnd (handleTouchStart w)"
proof -
  have start: "handleTouchStart w =
      w\<lparr>isHoldStarting := True, holdTimerRef := Some (nextHandle w),
        timers := timers w @ [(nextHandle w, HoldTimeout (currentSegment w))],
        nextHandle := nextHandle w + 1\<rparr>"
    using assms by (auto simp add: handleTouchStart_def)
  have released: "handleTouchEnd (handleTouchStart w) =
      w\<lparr>isHoldStarting := False, holdTimerRef := Some (nextHandle w),
        timers := filter (\<lambda>t. fst t \<noteq> nextHandle w) (timers w),
        nextHandle := nextHandle w + 1\<rparr>"
    by (simp add: start handleTouchEnd_def clearTimer_def)
  have gone: "map_of (timers (handleTouchEnd (handleTouchStart w))) (nextHandle w) = None"
    by (simp add: released map_of_filter_other)
  have never: "holdElapsed (nextHandle w) out (handleTouchEnd (handleTouchStart w))
      = handleTouchEnd (handleTouchStart w)"
    using gone by (simp add: holdElapsed_def)
  show ?thesis
    using released gone never by simp
qed

lemma pressedTwiceReleased_eq:
  assumes st: "status (currentSeg w) = Pending \<or> status (currentSeg w) = Error"
    and wf: "wellformed w" and idle: "\<not> isRecording (rendered w)"
  shows "pressedTwiceReleased w =
       w\<lparr>isHoldStarting := False, holdTimerRef := Some (nextHandle w + 1),
         timers := timers w @ [(nextHandle w, HoldTimeout (currentSegment w))],
         nextHandle := nextHandle w + 2\<rparr>"
proof -
  have fresh: "\<forall>t \<in> set (timers w). fst t < nextHandle w"
    using wf by (simp add: wellformed_def)
  then have keep: "filter (\<lambda>t. fst t \<noteq> Suc (nextHandle w)) (timers w) = timers w"
    by (induction "timers w") (auto simp add: filter_id_conv)
  have start: "handleTouchStart (handleTouchStart w) =
      w\<lparr>isHoldStarting := True, holdTimerRef := Some (nextHandle w + 1),
        timers := timers w @ [(nextHandle w, HoldTimeout (currentSegment w)),
                              (nextHandle w + 1, HoldTimeout (currentSegment w))],
        nextHandle := nextHandle w + 2\<rparr>"
    using st by (auto simp add: handleTouchStart_def currentSeg_def)
  have first: "handleTouchEnd (handleTouchStart (handleTouchStart w)) =
      w\<lparr>isHoldStarting := False, holdTimerRef := Some (nextHandle w + 1),
        timers := timers w @ [(nextHandle w, HoldTimeout (currentSegment w))],
        nextHandle := nextHandle w + 2\<rparr>"
    by (simp add: start handleTouchEnd_def clearTimer_def keep)
  show ?thesis
    unfolding pressedTwiceReleased_def first
    using idle by (simp add: handleTouchEnd_def)
qed

text \<open>
  Claim C7, what the code does. \<^verbatim>\<open>handleTouchStart\<close> neither looks at \<^verbatim>\<open>isHoldStarting\<close>
  nor clears the timeout that \<^verbatim>\<open>holdTimerRef\<close> holds before it overwrites the ref. If the
  button of a segment that is pending or in error is pressed a second time before the first
  press is released, the release clears the second timeout only, and a further release finds
  no hold starting and returns. With both presses released the first timeout is still
  pending; when it runs, it sets the segment to recording and calls \<^verbatim>\<open>startRecording\<close>, and
  if the microphone is granted the session records.
\<close>

theorem second_press_leaves_a_hold_timeout:
  assumes "status (currentSeg w) = Pending \<or> status (currentSeg w) = Error"
    and "wellformed w" and "\<not> isRecording (rendered w)"
  shows
    "\<not> isHoldStarting (pressedTwiceReleased w)
     \<and> state (pressedTwiceReleased w) = state w
     \<and> segments (pressedTwiceReleased w) = segments w
     \<and> trace (pressedTwiceReleased w) = trace w
     \<and> map_of (timers (pressedTwiceReleased w)) (nextHandle w)
         = Some (HoldTimeout (currentSegment w))
     \<and> map_of (timers (pressedTwiceReleased w)) (nextHandle w + 1) = None
     \<and> trace (holdElapsed (nextHandle w) out (pressedTwiceReleased w)) = trace w @ [StartCall]
     \<and> status (segments (holdElapsed (nextHandle w) out (pressedTwiceReleased w))
          ! currentSegment w) = Recording
     \<and> isRecording (state (holdElapsed (nextHandle w) Granted (pressedTwiceReleased w)))"
proof -
  note eq = pressedTwiceReleased_eq[OF assms]
  have fresh: "\<forall>t \<in> set (timers w). fst t < nextHandle w"
    and len: "currentSegment w < length (segments w)"
    using assms(2) by (simp_all add: wellformed_def)
  have pending: "map_of (timers (pressedTwiceReleased w)) (nextHandle w)
      = Some (HoldTimeout (currentSegment w))"
    using fresh by (simp add: eq map_of_append_fresh del: map_of_append)
  have other: "map_of (timers (pressedTwiceReleased w)) (nextHandle w + 1) = None"
  proof -
    have "map_of (timers w) (nextHandle w + 1) = None"
      using fresh by (auto simp add: map_of_eq_None_iff)
    then show ?thesis
      using fresh by (simp add: eq map_of_append_other del: map_of_append)
  qed
  have run: "holdElapsed (nextHandle w) out (pressedTwiceReleased w)
      = holdTimeout (currentSegment w) out (clearTimer (nextHandle w) (pressedTwiceReleased w))"
    for out
    by (simp add: holdElapsed_def pending)
  have tr: "trace (holdElapsed (nextHandle w) out (pressedTwiceReleased w)) = trace w @ [StartCall]"
    unfolding run
    by (cases out)
       (simp_all add: holdTimeout_def startRecording_def patchSegment_def clearTimer_def eq
          Let_def)
  have seg: "status (segments (holdElapsed (nextHandle w) out (pressedTwiceReleased w))
      ! currentSegment w) = Recording"
    unfolding run using len
    by (cases out)
       (simp_all add: holdTimeout_def startRecording_def patchSegment_def clearTimer_def eq
          Let_def)
  have rec: "isRecording (state (holdElapsed (nextHandle w) Granted (pressedTwiceReleased w)))"
    unfolding run
    by (simp add: holdTimeout_def startRecording_def patchSegment_def clearTimer_def eq Let_def)
  show ?thesis
    using pending other tr seg rec by (simp add: eq)
qed

theorem second_press_leaves_a_hold_timeout_witness:
  "(status (currentSeg init) = Pending \<or> status (currentSeg init) = Error)
   \<and> wellformed init \<and> \<not> isRecording (rendered init)
   \<and> run twoPresses init = pressedTwiceReleased init
   \<and> \<not> isHoldStarting (run twoPresses init)
   \<and> trace (run twoPresses init) = []
   \<and> map_of (timers (run twoPresses init)) 1 = Some (HoldTimeout 0)
   \<and> trace (run (twoPresses @ [HoldElapsed 1 Granted]) init) = [StartCall]
   \<and> status (segments (run (twoPresses @ [HoldElapsed 1 Granted]) init) ! 0) = Recording
   \<and> isRecording (state (run (twoPresses @ [HoldElapsed 1 Granted]) init))
   \<and> 3 \<in> set (liveStreams (run (twoPresses @ [HoldElapsed 1 Granted]) init))"
proof -
  have p: "status (currentSeg init) = Pending \<or> status (currentSeg init) = Error"
    by (simp add: init_def currentSeg_def initialSegment_def)
  have q: "\<not> isRecording (rendered init)"
    by (simp add: init_def initialState_def)
  have i: "nextHandle init = 1 \<and> currentSegment init = 0 \<and> trace init = []"
    by (simp add: init_def)
  note T = second_press_leaves_a_hold_timeout[OF p wf_init q]
  from T have a:
    "\<not> isHoldStarting (pressedTwiceReleased init)
     \<and> trace (pressedTwiceReleased init) = trace init
     \<and> map_of (timers (pressedTwiceReleased init)) (nextHandle init)
         = Some (HoldTimeout (currentSegment init))"
    by blast
  from a i have a':
    "\<not> isHoldStarting (pressedTwiceReleased init)
     \<and> trace (pressedTwiceReleased init) = []
     \<and> map_of (timers (pressedTwiceReleased init)) 1 = Some (HoldTimeout 0)"
    by simp
  have e1: "pressedTwiceReleased init =
      init\<lparr>holdTimerRef := Some 2, timers := [(1, HoldTimeout 0)], nextHandle := 3\<rparr>"
    unfolding pressedTwiceReleased_eq[OF p wf_init q] by (simp add: init_def)
  have same: "run twoPresses init = pressedTwiceReleased init"
    by (simp only: twoPressesReleased_def[symmetric] twoPressesReleased_eq e1)
  have r: "trace (run (twoPresses @ [HoldElapsed 1 Granted]) init) = [StartCall]
      \<and> status (segments (run (twoPresses @ [HoldElapsed 1 Granted]) init) ! 0) = Recording
      \<and> isRecording (state (run (twoPresses @ [HoldElapsed 1 Granted]) init))
      \<and> 3 \<in> set (liveStreams (run (twoPresses @ [HoldElapsed 1 Granted]) init))"
    unfolding twoPresses_def by code_simp
  show ?thesis
    using p wf_init q same a' r by (simp only: simp_thms)
qed

subsection \<open>Auto-stop against manual stop\<close>

lemma trace_handleAutoStop:
  "isRecording (rendered w) \<Longrightarrow>
   trace (handleAutoStop w) = trace w @ [StopCall (AutoStopCb (currentSegment w))]"
proof (cases "recorderRef w = None")
  case True
  assume "isRecording (rendered w)"
  then show ?thesis
    using True
      stopRecording_without_recorder[of
        "patchSegment (currentSegment w) (\<lambda>s. s\<lparr>status := Processing\<rparr>) w"
        "AutoStopCb (currentSegment w)"]
    by (simp add: handleAutoStop_def Let_def resume_def handleAutoStop_resume_def
        patchSegment_def stop_fields)
next
  case False
  assume "isRecording (rendered w)"
  then show ?thesis
    using False
      stopRecording_with_recorder[of
        "patchSegment (currentSegment w) (\<lambda>s. s\<lparr>status := Processing\<rparr>) w"
        "AutoStopCb (currentSegment w)"]
    by (simp add: handleAutoStop_def Let_def patchSegment_def stop_fields)
qed

lemma stopping_handleAutoStop:
  assumes "isRecording (rendered w)" and "recorderRef w \<noteq> None"
  shows "stopping (handleAutoStop w) = stopping w @ [AutoStopCb (currentSegment w)]"
  using assms
    stopRecording_with_recorder[of
      "patchSegment (currentSegment w) (\<lambda>s. s\<lparr>status := Processing\<rparr>) w"
      "AutoStopCb (currentSegment w)"]
  by (simp add: handleAutoStop_def Let_def patchSegment_def stop_fields)

lemma handleTouchEnd_runs:
  assumes "isRecording (rendered w)" and "recordingTime (rendered w) < SEGMENT_DURATION"
    and "\<not> isHoldStarting w"
  shows "handleTouchEnd w =
      fst (stopRecording (TouchEndCb (currentSegment w))
            (patchSegment (currentSegment w) (\<lambda>s. s\<lparr>status := Processing\<rparr>) w))"
proof (cases "recorderRef w = None")
  case True
  then show ?thesis
    using assms
      stopRecording_without_recorder[of
        "patchSegment (currentSegment w) (\<lambda>s. s\<lparr>status := Processing\<rparr>) w"
        "TouchEndCb (currentSegment w)"]
    by (simp add: handleTouchEnd_def Let_def resume_def handleTouchEnd_resume_def
        patchSegment_def)
next
  case False
  then show ?thesis
    using assms
      stopRecording_with_recorder[of
        "patchSegment (currentSegment w) (\<lambda>s. s\<lparr>status := Processing\<rparr>) w"
        "TouchEndCb (currentSegment w)"]
    by (simp add: handleTouchEnd_def Let_def patchSegment_def)
qed

text \<open>
  When the render is up to date and the time is at the limit, the guard of \<^verbatim>\<open>handleTouchEnd\<close>
  does what its comment says: the release is skipped.
\<close>

lemma release_after_the_render_is_skipped:
  assumes "rendered w = state w" and "\<not> isHoldStarting w"
    and "SEGMENT_DURATION \<le> recordingTime (state w)"
  shows "step TouchEnd w = w"
proof -
  have "handleTouchEnd w = w"
    using assms by (simp add: handleTouchEnd_def)
  moreover have "render w = w"
    using assms(1) by (simp add: render_def)
  ultimately show ?thesis by simp
qed

lemma release_before_the_render:
  assumes r: "isRecording (rendered w)" and below: "recordingTime (rendered w) < SEGMENT_DURATION"
    and h: "\<not> isHoldStarting w"
    and s: "isRecording (state w)" and limit: "SEGMENT_DURATION \<le> recordingTime (state w)"
  shows "trace (render (handleTouchEnd w))
      = trace w @ [StopCall (TouchEndCb (currentSegment w)),
                   StopCall (AutoStopCb (currentSegment w))]
    \<and> (recorderRef w \<noteq> None \<longrightarrow>
          stopping (render (handleTouchEnd w))
            = stopping w @ [TouchEndCb (currentSegment w), AutoStopCb (currentSegment w)])"
proof -
  define v where "v = (handleTouchEnd w)\<lparr>rendered := state (handleTouchEnd w)\<rparr>"
  note runs = handleTouchEnd_runs[OF r below h]
  have st: "state (handleTouchEnd w) = state w"
    by (simp add: runs state_stopRecording patchSegment_def)
  have rd: "rendered (handleTouchEnd w) = rendered w"
    by (simp add: runs rendered_stopRecording patchSegment_def)
  have tr: "trace (handleTouchEnd w) = trace w @ [StopCall (TouchEndCb (currentSegment w))]"
    by (simp add: runs trace_stopRecording patchSegment_def)
  have cs: "currentSegment (handleTouchEnd w) = currentSegment w"
    by (simp add: runs currentSegment_stopRecording patchSegment_def)
  have rr: "recorderRef (handleTouchEnd w) = recorderRef w"
    by (simp add: runs recorderRef_stopRecording patchSegment_def)
  have sp: "stopping (handleTouchEnd w) = stopping w @ [TouchEndCb (currentSegment w)]"
    if "recorderRef w \<noteq> None"
    using that
      stopRecording_with_recorder[of
        "patchSegment (currentSegment w) (\<lambda>s. s\<lparr>status := Processing\<rparr>) w"
        "TouchEndCb (currentSegment w)"]
    by (simp add: runs patchSegment_def)
  have changed: "recordingTime (state (handleTouchEnd w))
      \<noteq> recordingTime (rendered (handleTouchEnd w))"
    using below limit by (simp add: st rd)
  have "render (handleTouchEnd w) = autoStopEffect v"
    using changed by (simp add: render_def v_def Let_def)
  also have "\<dots> = handleAutoStop v"
    using s limit by (simp add: autoStopEffect_def v_def st)
  finally have eq: "render (handleTouchEnd w) = handleAutoStop v" .
  have vr: "isRecording (rendered v)"
    using s by (simp add: v_def st)
  have "trace (handleAutoStop v) = trace v @ [StopCall (AutoStopCb (currentSegment v))]"
    by (rule trace_handleAutoStop[OF vr])
  then have one: "trace (render (handleTouchEnd w))
      = trace w @ [StopCall (TouchEndCb (currentSegment w)),
                   StopCall (AutoStopCb (currentSegment w))]"
    by (simp add: eq v_def tr cs)
  have two: "stopping (render (handleTouchEnd w))
      = stopping w @ [TouchEndCb (currentSegment w), AutoStopCb (currentSegment w)]"
    if some: "recorderRef w \<noteq> None"
  proof -
    have "recorderRef v \<noteq> None" using some by (simp add: v_def rr)
    from stopping_handleAutoStop[OF vr this] show ?thesis
      by (simp add: eq v_def sp[OF some] cs)
  qed
  show ?thesis using one two by blast
qed

text \<open>
  Claim C3, what the code does. The guard of \<^verbatim>\<open>handleTouchEnd\<close> (line 210, under the comment
  that a stop already taken by the auto-stop is not to be repeated) reads
  \<^verbatim>\<open>state.recordingTime\<close> and \<^verbatim>\<open>state.isRecording\<close> as the last render saw them. When the
  interval callback has taken the time to \<^verbatim>\<open>SEGMENT_DURATION\<close> and the render it asked for
  has not happened yet, a release (or the manual stop button) still finds a recording below
  the limit: it runs its stop sequence, and the render that follows finds the time at the
  limit and the session still recording, so that its effect runs \<^verbatim>\<open>handleAutoStop\<close> as well.
  Both call \<^verbatim>\<open>stopRecording\<close> and both wait for the recorder. In the run in which the user
  releases in the 60th second and the recorder hands over a payload each time, the segment is
  set to recorded and handed to the upload by the continuation of the manual stop, and set to
  recorded and handed to the upload again, under another preview URL, by the continuation of
  the auto-stop: four uploads of the one segment are started.
\<close>

theorem release_before_the_render_stops_twice:
  "(isRecording (rendered w) \<and> recordingTime (rendered w) < SEGMENT_DURATION
      \<and> \<not> isHoldStarting w
      \<and> isRecording (state w) \<and> SEGMENT_DURATION \<le> recordingTime (state w) \<longrightarrow>
      trace (step TouchEnd w)
        = trace w @ [StopCall (TouchEndCb (currentSegment w)),
                     StopCall (AutoStopCb (currentSegment w))]
      \<and> trace (step ManualStop w) = trace (step TouchEnd w)
      \<and> (recorderRef w \<noteq> None \<longrightarrow>
            stopping (step TouchEnd w)
              = stopping w @ [TouchEndCb (currentSegment w), AutoStopCb (currentSegment w)]))
   \<and> bothStopsWorld = run releasedInThe60thSecond init
   \<and> trace bothStopsWorld
       = [StartCall, StopCall TickCb, StopCall (TouchEndCb 0), StopCall (AutoStopCb 0)]
   \<and> status (segments bothStopsWorld ! 0) = Processing
   \<and> firstStopDone
       = run (releasedInThe60thSecond @
              [RecorderStopped TickCb (Some blobA), RecorderStopped (TouchEndCb 0) (Some blobA)])
           init
   \<and> status (segments firstStopDone ! 0) = Uploading
   \<and> url (segments firstStopDone ! 0) = Some 11
   \<and> inFlight firstStopDone = [(0, webmA), (0, blobA)]
   \<and> stopping firstStopDone = [AutoStopCb 0]
   \<and> bothStopsDone = run [RecorderStopped (AutoStopCb 0) (Some blobA)] firstStopDone
   \<and> status (segments bothStopsDone ! 0) = Uploading
   \<and> url (segments bothStopsDone ! 0) = Some 14
   \<and> inFlight bothStopsDone = [(0, webmA), (0, blobA), (0, webmA), (0, blobA)]
   \<and> trace bothStopsDone
       = [StartCall, StopCall TickCb, StopCall (TouchEndCb 0), StopCall (AutoStopCb 0),
          UploadCall 0 webmA, UploadCall 0 blobA, UploadCall 0 webmA, UploadCall 0 blobA]"
proof -
  have general: "trace (step TouchEnd w)
        = trace w @ [StopCall (TouchEndCb (currentSegment w)),
                     StopCall (AutoStopCb (currentSegment w))]
      \<and> trace (step ManualStop w) = trace (step TouchEnd w)
      \<and> (recorderRef w \<noteq> None \<longrightarrow>
            stopping (step TouchEnd w)
              = stopping w @ [TouchEndCb (currentSegment w), AutoStopCb (currentSegment w)])"
    if hyp: "isRecording (rendered w) \<and> recordingTime (rendered w) < SEGMENT_DURATION
      \<and> \<not> isHoldStarting w
      \<and> isRecording (state w) \<and> SEGMENT_DURATION \<le> recordingTime (state w)"
  proof -
    from hyp have r: "isRecording (rendered w)"
      and below: "recordingTime (rendered w) < SEGMENT_DURATION"
      and h: "\<not> isHoldStarting w"
      and s: "isRecording (state w)" and limit: "SEGMENT_DURATION \<le> recordingTime (state w)"
      by simp_all
    have m: "handleManualStop w = handleTouchEnd w"
      using r by (simp add: handleManualStop_def)
    show ?thesis
      using release_before_the_render[OF r below h s limit] by (simp add: m)
  qed
  have a: "bothStopsWorld = run releasedInThe60thSecond init"
    by (simp add: bothStopsWorld_def)
  have b: "trace bothStopsWorld
       = [StartCall, StopCall TickCb, StopCall (TouchEndCb 0), StopCall (AutoStopCb 0)]
     \<and> status (segments bothStopsWorld ! 0) = Processing"
    by (simp add: bothStopsWorld_eq)
  have c: "firstStopDone
       = run (releasedInThe60thSecond @
              [RecorderStopped TickCb (Some blobA), RecorderStopped (TouchEndCb 0) (Some blobA)])
           init"
    unfolding firstStopDone_def bothStopsWorld_def by (simp only: run_append)
  have d: "status (segments firstStopDone ! 0) = Uploading
     \<and> url (segments firstStopDone ! 0) = Some 11
     \<and> inFlight firstStopDone = [(0, webmA), (0, blobA)]
     \<and> stopping firstStopDone = [AutoStopCb 0]"
    by (simp add: firstStopDone_eq)
  have e: "bothStopsDone = run [RecorderStopped (AutoStopCb 0) (Some blobA)] firstStopDone"
    by (simp add: bothStopsDone_def)
  have f: "status (segments bothStopsDone ! 0) = Uploading
     \<and> url (segments bothStopsDone ! 0) = Some 14
     \<and> inFlight bothStopsDone = [(0, webmA), (0, blobA), (0, webmA), (0, blobA)]
     \<and> trace bothStopsDone
         = [StartCall, StopCall TickCb, StopCall (TouchEndCb 0), StopCall (AutoStopCb 0),
            UploadCall 0 webmA, UploadCall 0 blobA, UploadCall 0 webmA, UploadCall 0 blobA]"
    by (simp add: bothStopsDone_eq)
  show ?thesis
    using general a b c d e f by blast
qed

theorem release_before_the_render_stops_twice_witness:
  "staleWorld = run (holdGranted @ replicate 59 (Tick 6) @ [TickCallback 6]) init
   \<and> isRecording (rendered staleWorld) \<and> recordingTime (rendered staleWorld) < SEGMENT_DURATION
   \<and> \<not> isHoldStarting staleWorld
   \<and> isRecording (state staleWorld) \<and> SEGMENT_DURATION \<le> recordingTime (state staleWorld)
   \<and> recorderRef staleWorld \<noteq> None
   \<and> trace (step TouchEnd staleWorld)
       = [StartCall, StopCall TickCb, StopCall (TouchEndCb 0), StopCall (AutoStopCb 0)]
   \<and> trace (step ManualStop staleWorld)
       = [StartCall, StopCall TickCb, StopCall (TouchEndCb 0), StopCall (AutoStopCb 0)]
   \<and> stopping (step TouchEnd staleWorld) = [TickCb, TouchEndCb 0, AutoStopCb 0]
   \<and> inFlight bothStopsDone = [(0, webmA), (0, blobA), (0, webmA), (0, blobA)]"
proof -
  have r: "staleWorld = run (holdGranted @ replicate 59 (Tick 6) @ [TickCallback 6]) init"
    by (simp add: staleWorld_def)
  have h: "isRecording (rendered staleWorld)
      \<and> recordingTime (rendered staleWorld) < SEGMENT_DURATION
      \<and> \<not> isHoldStarting staleWorld
      \<and> isRecording (state staleWorld) \<and> SEGMENT_DURATION \<le> recordingTime (state staleWorld)"
    by (simp add: staleWorld_eq SEGMENT_DURATION_def)
  have i: "recorderRef staleWorld \<noteq> None" by (simp add: staleWorld_eq)
  have j: "trace staleWorld = [StartCall, StopCall TickCb] \<and> stopping staleWorld = [TickCb]
      \<and> currentSegment staleWorld = 0"
    by (simp add: staleWorld_eq)
  note T = release_before_the_render_stops_twice[of staleWorld]
  from T h i have g:
    "trace (step TouchEnd staleWorld)
       = trace staleWorld @ [StopCall (TouchEndCb (currentSegment staleWorld)),
                             StopCall (AutoStopCb (currentSegment staleWorld))]
     \<and> trace (step ManualStop staleWorld) = trace (step TouchEnd staleWorld)
     \<and> stopping (step TouchEnd staleWorld)
         = stopping staleWorld @ [TouchEndCb (currentSegment staleWorld),
                                  AutoStopCb (currentSegment staleWorld)]"
    by blast
  from g j have g':
    "trace (step TouchEnd staleWorld)
       = [StartCall, StopCall TickCb, StopCall (TouchEndCb 0), StopCall (AutoStopCb 0)]
     \<and> trace (step ManualStop staleWorld)
       = [StartCall, StopCall TickCb, StopCall (TouchEndCb 0), StopCall (AutoStopCb 0)]
     \<and> stopping (step TouchEnd staleWorld) = [TickCb, TouchEndCb 0, AutoStopCb 0]"
    by simp
  from T have k: "inFlight bothStopsDone = [(0, webmA), (0, blobA), (0, webmA), (0, blobA)]"
    by blast
  show ?thesis
    using r h i g' k by blast
qed

subsection \<open>Retry and re-record at the retry cap\<close>

lemma segments_resetRecording: "segments (resetRecording w) = segments w"
  by (simp add: resetRecording_def clearTimerRef_def clearVolumeRef_def closeAudioContext_def
      stopTracks_def clearTimer_def Let_def split: option.splits)

lemma currentSegment_resetRecording: "currentSegment (resetRecording w) = currentSegment w"
  by (simp add: resetRecording_def clearTimerRef_def clearVolumeRef_def closeAudioContext_def
      stopTracks_def clearTimer_def Let_def split: option.splits)

lemma handleRetry_below_cap:
  assumes "retryCount (currentSeg w) < MAX_RETRIES"
  shows "segments (handleRetry w) =
      (segments w)[currentSegment w := (currentSeg w)
         \<lparr>status := Pending, blob := None, url := None, uploadUrl := None, errorMsg := None\<rparr>]
    \<and> currentSegment (handleRetry w) = currentSegment w"
  using assms
  by (simp add: handleRetry_def Let_def segments_resetRecording currentSegment_resetRecording
      patchSegment_def currentSeg_def split: option.splits)

text \<open>No event lowers a retry count: only a failed upload changes one, by adding 1.\<close>

lemma rc_patch:
  assumes "\<And>s. retryCount (f s) = retryCount s"
  shows "retryCounts (patchSegment i f w) = retryCounts w"
proof -
  have "(map retryCount (segments w))[i := retryCount (segments w ! i)]
      = map retryCount (segments w)"
    by (metis list_update_id map_update)
  then show ?thesis
    by (simp add: patchSegment_def map_update assms)
qed

lemma rc_uploadSegment: "retryCounts (uploadSegment b i w) = retryCounts w"
  using rc_patch[of "\<lambda>s. s\<lparr>status := Uploading\<rparr>" i w]
  by (simp add: uploadSegment_def Let_def)

lemma rc_handleAutoStop_resume: "retryCounts (handleAutoStop_resume cur b w) = retryCounts w"
  by (cases b)
     (simp_all add: handleAutoStop_resume_def Let_def createObjectURL_def rc_uploadSegment
        rc_patch)

lemma rc_handleTouchEnd_resume: "retryCounts (handleTouchEnd_resume cur b w) = retryCounts w"
  by (cases b)
     (simp_all add: handleTouchEnd_resume_def Let_def createObjectURL_def rc_uploadSegment
        rc_patch)

lemma rc_resume: "retryCounts (resume c b w) = retryCounts w"
  by (cases c) (simp_all add: resume_def rc_handleAutoStop_resume rc_handleTouchEnd_resume)

lemma rc_stopped_patch:
  "retryCounts (fst (stopRecording c (patchSegment i (\<lambda>s. s\<lparr>status := Processing\<rparr>) w)))
     = retryCounts w"
  by (simp add: segments_stopRecording rc_patch)

lemma rc_handleAutoStop: "retryCounts (handleAutoStop w) = retryCounts w"
  using rc_stopped_patch[of "AutoStopCb (currentSegment w)" "currentSegment w" w]
  by (auto simp add: handleAutoStop_def Let_def rc_resume split: prod.splits promise.splits)

lemma rc_handleTouchEnd: "retryCounts (handleTouchEnd w) = retryCounts w"
  using rc_stopped_patch[of "TouchEndCb (currentSegment w)" "currentSegment w" w]
  by (auto simp add: handleTouchEnd_def Let_def rc_resume clearTimer_def
      split: prod.splits promise.splits option.splits)

lemma rc_render: "retryCounts (render w) = retryCounts w"
  using rc_handleAutoStop[of "w\<lparr>rendered := state w\<rparr>"]
  by (simp add: render_def autoStopEffect_def Let_def)

lemma rc_handleRetry: "retryCounts (handleRetry w) = retryCounts w"
  by (simp add: handleRetry_def Let_def segments_resetRecording rc_patch split: option.splits)

lemma rc_handlers:
  "retryCounts (handleTouchStart w) = retryCounts w
   \<and> retryCounts (handleManualStop w) = retryCounts w
   \<and> retryCounts (handleRetryUpload w) = retryCounts w
   \<and> retryCounts (handleNextSegment w) = retryCounts w
   \<and> retryCounts (volumeTick h a w) = retryCounts w
   \<and> retryCounts (intervalFired h w) = retryCounts w"
proof (intro conjI)
  show "retryCounts (handleTouchStart w) = retryCounts w"
    by (simp add: handleTouchStart_def)
  show "retryCounts (handleManualStop w) = retryCounts w"
    by (simp add: handleManualStop_def rc_handleTouchEnd)
  show "retryCounts (handleRetryUpload w) = retryCounts w"
    by (simp add: handleRetryUpload_def rc_uploadSegment split: option.splits)
  show "retryCounts (handleNextSegment w) = retryCounts w"
    by (simp add: handleNextSegment_def segments_resetRecording)
  show "retryCounts (volumeTick h a w) = retryCounts w"
    by (simp add: volumeTick_def volumeSample_def)
  show "retryCounts (intervalFired h w) = retryCounts w"
    by (simp add: intervalFired_def timerTick_def Let_def segments_stopRecording)
qed

lemma rc_holdElapsed: "retryCounts (holdElapsed h out w) = retryCounts w"
proof -
  have s: "segments (startRecording out v) = segments v" for v
    by (cases out) (simp_all add: startRecording_def Let_def)
  have "retryCounts (holdTimeout cur out v) = retryCounts v" for cur v
    using rc_patch[of "\<lambda>s. s\<lparr>status := Recording\<rparr>" cur
        "v\<lparr>isHoldStarting := False, showGuide := False\<rparr>"]
    by (simp add: holdTimeout_def Let_def s)
  then show ?thesis
    by (simp add: holdElapsed_def clearTimer_def split: option.splits timer.splits)
qed

lemma rc_recorderStopped: "retryCounts (recorderStopped c gb w) = retryCounts w"
proof -
  have "segments (fst (onRecorderStopped gb v)) = segments v" for v
    by (auto simp add: onRecorderStopped_def stopTracks_def createObjectURL_def Let_def
        split: option.splits prod.splits)
  from this[of "w\<lparr>stopping := remove1 c (stopping w)\<rparr>"] show ?thesis
    by (auto simp add: recorderStopped_def Let_def rc_resume split: prod.splits)
qed

lemma rc_uploadSegment_settled:
  "list_all2 (\<le>) (retryCounts w) (retryCounts (uploadSegment_settled i r w))"
proof (cases "i < length (segments w)")
  case True
  then show ?thesis
    by (auto simp add: uploadSegment_settled_def patchSegment_def list_all2_conv_all_nth
        nth_list_update)
next
  case False
  then show ?thesis
    by (simp add: uploadSegment_settled_def patchSegment_def list_all2_conv_all_nth)
qed

lemma rc_uploadSettled:
  "list_all2 (\<le>) (retryCounts w) (retryCounts (uploadSettled i b out w))"
proof (cases "(i, b) \<in> set (inFlight w)")
  case True
  then show ?thesis
    using rc_uploadSegment_settled[of "w\<lparr>inFlight := remove1 (i, b) (inFlight w)\<rparr>" i
        "uploadAudioSegment out"]
    by (simp add: uploadSettled_def)
next
  case False
  then show ?thesis
    by (simp add: uploadSettled_def list_all2_conv_all_nth)
qed

lemma rc_step: "list_all2 (\<le>) (retryCounts w) (retryCounts (step e w))"
proof (cases e)
  case (UploadSettled i b out)
  then show ?thesis
    using rc_uploadSettled[of w i b out] by (simp add: rc_render)
qed (simp_all add: tick_def rc_render rc_handlers rc_handleTouchEnd rc_handleRetry
      rc_holdElapsed rc_recorderStopped list_all2_conv_all_nth)

lemma rc_run: "list_all2 (\<le>) (retryCounts w) (retryCounts (run es w))"
proof (induction es arbitrary: w)
  case Nil
  show ?case by (simp add: list_all2_conv_all_nth)
next
  case (Cons e es)
  have "list_all2 (\<le>) (retryCounts w) (retryCounts (step e w))" by (rule rc_step)
  moreover have "list_all2 (\<le>) (retryCounts (step e w)) (retryCounts (run es (step e w)))"
    by (rule Cons.IH)
  ultimately have "list_all2 (\<le>) (retryCounts w) (retryCounts (run es (step e w)))"
    by (rule list_all2_trans[rotated]) simp
  then show ?case by simp
qed

lemma retryCount_never_lowered:
  "i < length (segments w) \<Longrightarrow>
   retryCount (segments w ! i) \<le> retryCount (segments (run es w) ! i)"
  using rc_run[of w es] by (auto simp add: list_all2_conv_all_nth)

lemma hold_on_error_segment:
  assumes st: "status (currentSeg w) = Error" and wf: "wellformed w"
  shows "handleTouchStart w =
       w\<lparr>isHoldStarting := True, holdTimerRef := Some (nextHandle w),
         timers := timers w @ [(nextHandle w, HoldTimeout (currentSegment w))],
         nextHandle := nextHandle w + 1\<rparr>
     \<and> trace (holdElapsed (nextHandle w) out (handleTouchStart w)) = trace w @ [StartCall]
     \<and> status (currentSeg (holdElapsed (nextHandle w) out (handleTouchStart w))) = Recording
     \<and> retryCount (currentSeg (holdElapsed (nextHandle w) out (handleTouchStart w)))
         = retryCount (currentSeg w)
     \<and> isRecording (state (holdElapsed (nextHandle w) Granted (handleTouchStart w)))"
proof -
  have fresh: "\<forall>t \<in> set (timers w). fst t < nextHandle w"
    and len: "currentSegment w < length (segments w)"
    using wf by (simp_all add: wellformed_def)
  have start: "handleTouchStart w =
      w\<lparr>isHoldStarting := True, holdTimerRef := Some (nextHandle w),
        timers := timers w @ [(nextHandle w, HoldTimeout (currentSegment w))],
        nextHandle := nextHandle w + 1\<rparr>"
    using st by (simp add: handleTouchStart_def)
  have pending: "map_of (timers (handleTouchStart w)) (nextHandle w)
      = Some (HoldTimeout (currentSegment w))"
    using fresh by (simp add: start map_of_append_fresh del: map_of_append)
  have run: "holdElapsed (nextHandle w) out (handleTouchStart w)
      = holdTimeout (currentSegment w) out (clearTimer (nextHandle w) (handleTouchStart w))"
    for out
    by (simp add: holdElapsed_def pending)
  have tr: "trace (holdElapsed (nextHandle w) out (handleTouchStart w)) = trace w @ [StartCall]"
    unfolding run
    by (cases out)
       (simp_all add: holdTimeout_def startRecording_def patchSegment_def clearTimer_def start
          Let_def)
  have seg: "currentSeg (holdElapsed (nextHandle w) out (handleTouchStart w))
      = (currentSeg w)\<lparr>status := Recording\<rparr>"
    unfolding run using len
    by (cases out)
       (simp_all add: holdTimeout_def startRecording_def patchSegment_def clearTimer_def start
          currentSeg_def Let_def)
  have rec: "isRecording (state (holdElapsed (nextHandle w) Granted (handleTouchStart w)))"
    unfolding run
    by (simp add: holdTimeout_def startRecording_def patchSegment_def clearTimer_def start Let_def)
  have st': "status (currentSeg (holdElapsed (nextHandle w) out (handleTouchStart w))) = Recording"
    by (simp add: seg)
  have rc': "retryCount (currentSeg (holdElapsed (nextHandle w) out (handleTouchStart w)))
      = retryCount (currentSeg w)"
    by (simp add: seg)
  show ?thesis
    using start tr st' rc' rec by blast
qed

text \<open>
  Claim C1, as the code has it. Once the retry count of the current segment has reached
  \<^verbatim>\<open>MAX_RETRIES\<close>, a retry-upload request is rejected with an alert and starts no upload.
  Re-recording stays possible by a new hold: \<^verbatim>\<open>handleTouchStart\<close> accepts a hold on
  a segment in error whatever its retry count, and when the hold has lasted the delay the
  segment goes to recording (not to pending), \<^verbatim>\<open>startRecording\<close> is called, and the retry
  count is what it was. The explicit re-record request, \<^verbatim>\<open>handleRetry\<close>, is rejected with an
  alert at the cap; below the cap it is accepted: the segment goes back to pending without
  payload, preview URL, remote URL and error message, and its retry count stays what it was.
  No run of events lowers the retry count of a segment. Three failed uploads of a segment
  leave it in error with its retry count up by three.
\<close>

theorem retry_and_rerecord_at_the_cap:
  "(MAX_RETRIES \<le> retryCount (currentSeg w) \<longrightarrow>
      handleRetryUpload w = w\<lparr>trace := trace w @ [Alert msgCannotRetry]\<rparr>
      \<and> handleRetry w = w\<lparr>trace := trace w @ [Alert msgTooManyRetries]\<rparr>)
   \<and> (status (currentSeg w) = Error \<and> wellformed w \<longrightarrow>
      handleTouchStart w =
        w\<lparr>isHoldStarting := True, holdTimerRef := Some (nextHandle w),
          timers := timers w @ [(nextHandle w, HoldTimeout (currentSegment w))],
          nextHandle := nextHandle w + 1\<rparr>
      \<and> trace (holdElapsed (nextHandle w) out (handleTouchStart w)) = trace w @ [StartCall]
      \<and> status (currentSeg (holdElapsed (nextHandle w) out (handleTouchStart w))) = Recording
      \<and> retryCount (currentSeg (holdElapsed (nextHandle w) out (handleTouchStart w)))
          = retryCount (currentSeg w)
      \<and> isRecording (state (holdElapsed (nextHandle w) Granted (handleTouchStart w))))
   \<and> (retryCount (currentSeg w) < MAX_RETRIES \<and> currentSegment w < length (segments w) \<longrightarrow>
      status (currentSeg (handleRetry w)) = Pending
      \<and> blob (currentSeg (handleRetry w)) = None
      \<and> url (currentSeg (handleRetry w)) = None
      \<and> uploadUrl (currentSeg (handleRetry w)) = None
      \<and> errorMsg (currentSeg (handleRetry w)) = None
      \<and> retryCount (currentSeg (handleRetry w)) = retryCount (currentSeg w))
   \<and> (\<forall>es j. j < length (segments w) \<longrightarrow>
         retryCount (segments w ! j) \<le> retryCount (segments (run es w) ! j))
   \<and> (\<not> success r1 \<and> \<not> success r2 \<and> \<not> success r3 \<and> i < length (segments w) \<longrightarrow>
      status (segments (uploadSegment_settled i r3 (uploadSegment_settled i r2
         (uploadSegment_settled i r1 w))) ! i) = Error
      \<and> retryCount (segments (uploadSegment_settled i r3 (uploadSegment_settled i r2
         (uploadSegment_settled i r1 w))) ! i) = retryCount (segments w ! i) + 3)"
proof (intro conjI impI allI)
  assume cap: "MAX_RETRIES \<le> retryCount (currentSeg w)"
  show "handleRetryUpload w = w\<lparr>trace := trace w @ [Alert msgCannotRetry]\<rparr>"
    using cap by (simp add: handleRetryUpload_def split: option.splits)
  show "handleRetry w = w\<lparr>trace := trace w @ [Alert msgTooManyRetries]\<rparr>"
    using cap by (simp add: handleRetry_def)
next
  assume err: "status (currentSeg w) = Error \<and> wellformed w"
  note H = hold_on_error_segment[of w out]
  show "handleTouchStart w =
        w\<lparr>isHoldStarting := True, holdTimerRef := Some (nextHandle w),
          timers := timers w @ [(nextHandle w, HoldTimeout (currentSegment w))],
          nextHandle := nextHandle w + 1\<rparr>"
    using H err by blast
  show "trace (holdElapsed (nextHandle w) out (handleTouchStart w)) = trace w @ [StartCall]"
    using H err by blast
  show "status (currentSeg (holdElapsed (nextHandle w) out (handleTouchStart w))) = Recording"
    using H err by blast
  show "retryCount (currentSeg (holdElapsed (nextHandle w) out (handleTouchStart w)))
          = retryCount (currentSeg w)"
    using H err by blast
  show "isRecording (state (holdElapsed (nextHandle w) Granted (handleTouchStart w)))"
    using H err by blast
next
  assume below: "retryCount (currentSeg w) < MAX_RETRIES \<and> currentSegment w < length (segments w)"
  then have seg: "currentSeg (handleRetry w) = (currentSeg w)
      \<lparr>status := Pending, blob := None, url := None, uploadUrl := None, errorMsg := None\<rparr>"
    using handleRetry_below_cap[of w] by (simp add: currentSeg_def)
  show "status (currentSeg (handleRetry w)) = Pending" by (simp add: seg)
  show "blob (currentSeg (handleRetry w)) = None" by (simp add: seg)
  show "url (currentSeg (handleRetry w)) = None" by (simp add: seg)
  show "uploadUrl (currentSeg (handleRetry w)) = None" by (simp add: seg)
  show "errorMsg (currentSeg (handleRetry w)) = None" by (simp add: seg)
  show "retryCount (currentSeg (handleRetry w)) = retryCount (currentSeg w)" by (simp add: seg)
next
  fix es j
  assume "j < length (segments w)"
  then show "retryCount (segments w ! j) \<le> retryCount (segments (run es w) ! j)"
    by (rule retryCount_never_lowered)
next
  assume fails: "\<not> success r1 \<and> \<not> success r2 \<and> \<not> success r3 \<and> i < length (segments w)"
  then show "status (segments (uploadSegment_settled i r3 (uploadSegment_settled i r2
         (uploadSegment_settled i r1 w))) ! i) = Error"
    by (simp add: uploadSegment_settled_def patchSegment_def)
  from fails show "retryCount (segments (uploadSegment_settled i r3 (uploadSegment_settled i r2
         (uploadSegment_settled i r1 w))) ! i) = retryCount (segments w ! i) + 3"
    by (simp add: uploadSegment_settled_def patchSegment_def)
qed

theorem retry_and_rerecord_at_the_cap_witness:
  "MAX_RETRIES \<le> retryCount (currentSeg threeFailures)
   \<and> status (currentSeg threeFailures) = Error \<and> wellformed threeFailures
   \<and> retryCount (currentSeg threeFailures) = 3
   \<and> handleRetryUpload threeFailures
       = threeFailures\<lparr>trace := trace threeFailures @ [Alert msgCannotRetry]\<rparr>
   \<and> handleRetry threeFailures
       = threeFailures\<lparr>trace := trace threeFailures @ [Alert msgTooManyRetries]\<rparr>
   \<and> status (currentSeg (holdElapsed 12 Granted (handleTouchStart threeFailures))) = Recording
   \<and> retryCount (currentSeg (holdElapsed 12 Granted (handleTouchStart threeFailures))) = 3
   \<and> isRecording (state (holdElapsed 12 Granted (handleTouchStart threeFailures)))
   \<and> retryCount (currentSeg twoFailures) < MAX_RETRIES
   \<and> currentSegment twoFailures < length (segments twoFailures)
   \<and> status (currentSeg (handleRetry twoFailures)) = Pending
   \<and> url (currentSeg (handleRetry twoFailures)) = None
   \<and> errorMsg (currentSeg (handleRetry twoFailures)) = None
   \<and> retryCount (currentSeg (handleRetry twoFailures)) = 2
   \<and> 2 \<le> retryCount (segments (run [Retry, TouchStart] twoFailures) ! 0)
   \<and> \<not> success (uploadAudioSegment failOutcome)
   \<and> retryCount (segments uploadingWorld ! 0) = 0
   \<and> status (segments (uploadSegment_settled 0 (uploadAudioSegment failOutcome)
        (uploadSegment_settled 0 (uploadAudioSegment failOutcome)
          (uploadSegment_settled 0 (uploadAudioSegment failOutcome) uploadingWorld))) ! 0) = Error
   \<and> retryCount (segments (uploadSegment_settled 0 (uploadAudioSegment failOutcome)
        (uploadSegment_settled 0 (uploadAudioSegment failOutcome)
          (uploadSegment_settled 0 (uploadAudioSegment failOutcome) uploadingWorld))) ! 0) = 3"
proof -
  have a: "MAX_RETRIES \<le> retryCount (currentSeg threeFailures)
      \<and> status (currentSeg threeFailures) = Error \<and> retryCount (currentSeg threeFailures) = 3
      \<and> nextHandle threeFailures = 12"
    by (simp add: threeFailures_eq uploadingWorld_eq currentSeg_def MAX_RETRIES_def)
  from scenarios_reachable have reach:
    "threeFailures =
       run (heldSixtySeconds @
            [UploadSettled 0 webmA failOutcome, UploadSettled 0 blobA failOutcome] @
            [RetryUpload, UploadSettled 0 blobA failOutcome]) init"
    by blast
  have wf: "wellformed threeFailures"
    by (subst reach) (rule run_wellformed)
  have b: "retryCount (currentSeg twoFailures) < MAX_RETRIES
      \<and> currentSegment twoFailures < length (segments twoFailures)
      \<and> retryCount (currentSeg twoFailures) = 2
      \<and> 0 < length (segments twoFailures) \<and> retryCount (segments twoFailures ! 0) = 2"
    by (simp add: twoFailures_eq uploadingWorld_eq currentSeg_def MAX_RETRIES_def)
  note T3 = retry_and_rerecord_at_the_cap[of threeFailures Granted]
  note T2 = retry_and_rerecord_at_the_cap[of twoFailures]
  from T3 a have at_cap:
    "handleRetryUpload threeFailures
       = threeFailures\<lparr>trace := trace threeFailures @ [Alert msgCannotRetry]\<rparr>
     \<and> handleRetry threeFailures
       = threeFailures\<lparr>trace := trace threeFailures @ [Alert msgTooManyRetries]\<rparr>"
    by blast
  from T3 a wf have hold:
    "status (currentSeg (holdElapsed (nextHandle threeFailures) Granted
        (handleTouchStart threeFailures))) = Recording
     \<and> retryCount (currentSeg (holdElapsed (nextHandle threeFailures) Granted
        (handleTouchStart threeFailures))) = retryCount (currentSeg threeFailures)
     \<and> isRecording (state (holdElapsed (nextHandle threeFailures) Granted
        (handleTouchStart threeFailures)))"
    by blast
  from hold a have hold':
    "status (currentSeg (holdElapsed 12 Granted (handleTouchStart threeFailures))) = Recording
     \<and> retryCount (currentSeg (holdElapsed 12 Granted (handleTouchStart threeFailures))) = 3
     \<and> isRecording (state (holdElapsed 12 Granted (handleTouchStart threeFailures)))"
    by simp
  from T2 b have below:
    "status (currentSeg (handleRetry twoFailures)) = Pending
     \<and> url (currentSeg (handleRetry twoFailures)) = None
     \<and> errorMsg (currentSeg (handleRetry twoFailures)) = None
     \<and> retryCount (currentSeg (handleRetry twoFailures)) = retryCount (currentSeg twoFailures)"
    by blast
  from below b have below':
    "status (currentSeg (handleRetry twoFailures)) = Pending
     \<and> url (currentSeg (handleRetry twoFailures)) = None
     \<and> errorMsg (currentSeg (handleRetry twoFailures)) = None
     \<and> retryCount (currentSeg (handleRetry twoFailures)) = 2"
    by simp
  from T2 b have "retryCount (segments twoFailures ! 0)
      \<le> retryCount (segments (run [Retry, TouchStart] twoFailures) ! 0)"
    by blast
  with b have never: "2 \<le> retryCount (segments (run [Retry, TouchStart] twoFailures) ! 0)"
    by simp
  have f: "\<not> success (uploadAudioSegment failOutcome)"
    by (simp add: uploadAudioSegment_def uploadViaBackend_def failOutcome_def)
  have l: "0 < length (segments uploadingWorld) \<and> retryCount (segments uploadingWorld ! 0) = 0"
    by (simp add: uploadingWorld_eq)
  from retry_and_rerecord_at_the_cap[of uploadingWorld Granted
      "uploadAudioSegment failOutcome" "uploadAudioSegment failOutcome"
      "uploadAudioSegment failOutcome" 0] f l
  have thrice:
    "status (segments (uploadSegment_settled 0 (uploadAudioSegment failOutcome)
        (uploadSegment_settled 0 (uploadAudioSegment failOutcome)
          (uploadSegment_settled 0 (uploadAudioSegment failOutcome) uploadingWorld))) ! 0) = Error
     \<and> retryCount (segments (uploadSegment_settled 0 (uploadAudioSegment failOutcome)
        (uploadSegment_settled 0 (uploadAudioSegment failOutcome)
          (uploadSegment_settled 0 (uploadAudioSegment failOutcome) uploadingWorld))) ! 0)
        = retryCount (segments uploadingWorld ! 0) + 3"
    by blast
  from thrice l have thrice':
    "status (segments (uploadSegment_settled 0 (uploadAudioSegment failOutcome)
        (uploadSegment_settled 0 (uploadAudioSegment failOutcome)
          (uploadSegment_settled 0 (uploadAudioSegment failOutcome) uploadingWorld))) ! 0) = Error
     \<and> retryCount (segments (uploadSegment_settled 0 (uploadAudioSegment failOutcome)
        (uploadSegment_settled 0 (uploadAudioSegment failOutcome)
          (uploadSegment_settled 0 (uploadAudioSegment failOutcome) uploadingWorld))) ! 0) = 3"
    by simp
  show ?thesis
    using a wf b at_cap hold' below' never f l thrice' by blast
qed

text \<open>
  Against claim C1 as stated: after three failed uploads the re-record request is not
  accepted (the segment stays in error, its retry count stays 3); re-recording by a new hold
  takes the segment to recording, not to pending, and leaves its retry count at 3; and where
  the re-record request is accepted, after two failures, it does not reset the retry count
  to 0.
\<close>

theorem rerecord_keeps_the_retry_count_counterexample:
  "threeFailures =
     run (heldSixtySeconds @
          [UploadSettled 0 webmA failOutcome, UploadSettled 0 blobA failOutcome] @
          [RetryUpload, UploadSettled 0 blobA failOutcome]) init
   \<and> status (currentSeg threeFailures) = Error
   \<and> retryCount (currentSeg threeFailures) = MAX_RETRIES
   \<and> status (currentSeg (run [Retry] threeFailures)) = Error
   \<and> retryCount (currentSeg (run [Retry] threeFailures)) = 3
   \<and> trace (run [Retry] threeFailures) = trace threeFailures @ [Alert msgTooManyRetries]
   \<and> status (currentSeg (run [TouchStart, HoldElapsed 12 Granted] threeFailures)) = Recording
   \<and> retryCount (currentSeg (run [TouchStart, HoldElapsed 12 Granted] threeFailures)) = 3
   \<and> status (currentSeg (run [Retry] twoFailures)) = Pending
   \<and> retryCount (currentSeg (run [Retry] twoFailures)) = 2"
proof -
  from scenarios_reachable have r:
    "threeFailures =
       run (heldSixtySeconds @
            [UploadSettled 0 webmA failOutcome, UploadSettled 0 blobA failOutcome] @
            [RetryUpload, UploadSettled 0 blobA failOutcome]) init"
    by blast
  have three: "status (currentSeg threeFailures) = Error
      \<and> retryCount (currentSeg threeFailures) = MAX_RETRIES
      \<and> status (currentSeg (run [Retry] threeFailures)) = Error
      \<and> retryCount (currentSeg (run [Retry] threeFailures)) = 3
      \<and> trace (run [Retry] threeFailures) = trace threeFailures @ [Alert msgTooManyRetries]"
    by (simp add: handleRetry_def render_def threeFailures_eq uploadingWorld_eq currentSeg_def
        MAX_RETRIES_def Let_def)
  have hold: "status (currentSeg (run [TouchStart, HoldElapsed 12 Granted] threeFailures))
        = Recording
      \<and> retryCount (currentSeg (run [TouchStart, HoldElapsed 12 Granted] threeFailures)) = 3"
    by (simp add: threeFailures_eq uploadingWorld_eq model_defs Let_def)
  have two: "status (currentSeg (run [Retry] twoFailures)) = Pending
      \<and> retryCount (currentSeg (run [Retry] twoFailures)) = 2"
    by (simp add: twoFailures_eq uploadingWorld_eq model_defs Let_def)
  show ?thesis
    using r three hold two by blast
qed

subsection \<open>Advancing to the next segment\<close>

text \<open>
  Claim C6, as the code has it. \<^verbatim>\<open>handleNextSegment\<close> looks at the position only: below the
  last position it moves \<^verbatim>\<open>currentSegment\<close> up by one and resets the session, whatever the
  status of the current segment; at the last position it does nothing. It never touches the
  segments. The status is looked at by the render alone, which offers the control that calls
  the handler exactly when the current segment is uploaded and is not the last.
\<close>

theorem handleNextSegment_checks_position_only:
  "currentSegment (handleNextSegment w)
     = (if currentSegment w < 2 then currentSegment w + 1 else currentSegment w)
   \<and> segments (handleNextSegment w) = segments w
   \<and> (currentSegment w < 2 \<longrightarrow>
        handleNextSegment w = resetRecording (w\<lparr>currentSegment := currentSegment w + 1\<rparr>))
   \<and> (\<not> currentSegment w < 2 \<longrightarrow> handleNextSegment w = w)
   \<and> nextSegmentOffered w = (status (currentSeg w) = Uploaded \<and> currentSegment w < 2)"
  by (auto simp add: handleNextSegment_def segments_resetRecording
      currentSegment_resetRecording nextSegmentOffered_def canRecord_def)

theorem handleNextSegment_checks_position_only_witness:
  "currentSegment uploadingWorld < 2
   \<and> currentSegment (handleNextSegment uploadingWorld) = 1
   \<and> segments (handleNextSegment uploadingWorld) = segments uploadingWorld
   \<and> \<not> nextSegmentOffered uploadingWorld
   \<and> \<not> currentSegment (init\<lparr>currentSegment := 2\<rparr>) < 2
   \<and> handleNextSegment (init\<lparr>currentSegment := 2\<rparr>) = init\<lparr>currentSegment := 2\<rparr>"
proof -
  have a: "currentSegment uploadingWorld = 0 \<and> status (currentSeg uploadingWorld) = Uploading"
    by (simp add: uploadingWorld_eq currentSeg_def)
  have b: "\<not> currentSegment (init\<lparr>currentSegment := 2\<rparr>) < 2" by simp
  from handleNextSegment_checks_position_only[of uploadingWorld] a have one:
    "currentSegment (handleNextSegment uploadingWorld) = 1
     \<and> segments (handleNextSegment uploadingWorld) = segments uploadingWorld
     \<and> \<not> nextSegmentOffered uploadingWorld"
    by (simp add: segments_resetRecording currentSegment_resetRecording)
  from handleNextSegment_checks_position_only[of "init\<lparr>currentSegment := 2\<rparr>"] b have two:
    "handleNextSegment (init\<lparr>currentSegment := 2\<rparr>) = init\<lparr>currentSegment := 2\<rparr>"
    by blast
  show ?thesis using a b one two by simp
qed

text \<open>
  Against claim C6 as stated: in the state reached by holding for 60 seconds, segment 0 is
  uploading and \<^verbatim>\<open>handleNextSegment\<close> moves on to position 1.
\<close>

theorem advance_while_uploading_counterexample:
  "status (currentSeg uploadingWorld) = Uploading
   \<and> currentSegment uploadingWorld = 0
   \<and> currentSegment (handleNextSegment uploadingWorld) = 1"
  by (simp add: handleNextSegment_def currentSegment_resetRecording uploadingWorld_eq
      currentSeg_def)

subsection \<open>One stop, two uploads\<close>

lemma inFlight_uploadSegment: "inFlight (uploadSegment b i w) = inFlight w @ [(i, b)]"
  by (simp add: uploadSegment_def patchSegment_def Let_def)

lemma trace_uploadSegment: "trace (uploadSegment b i w) = trace w @ [UploadCall i b]"
  by (simp add: uploadSegment_def patchSegment_def Let_def)

text \<open>
  Claim C2, what the code does. After a stop that yields a payload, both
  \<^verbatim>\<open>handleAutoStop\<close> and \<^verbatim>\<open>handleTouchEnd\<close> call \<^verbatim>\<open>uploadSegment\<close> twice for the same
  position, once with the payload under its corrected media type (lines 139 and 254) and once
  with the payload itself (lines 158 and 273): two uploads of that position are in flight.
  \<^verbatim>\<open>handleRetryUpload\<close> does not look at the status either: with a payload and a retry count
  below the cap it starts an upload, also for a segment that is uploading.
\<close>

theorem one_stop_starts_two_uploads:
  "inFlight (handleAutoStop_resume cur (Some b) w) = inFlight w @ [(cur, correctBlob b), (cur, b)]
   \<and> inFlight (handleTouchEnd_resume cur (Some b) w)
       = inFlight w @ [(cur, correctBlob b), (cur, b)]
   \<and> trace (handleAutoStop_resume cur (Some b) w)
       = trace w @ [UploadCall cur (correctBlob b), UploadCall cur b]
   \<and> trace (handleTouchEnd_resume cur (Some b) w)
       = trace w @ [UploadCall cur (correctBlob b), UploadCall cur b]
   \<and> (blob (currentSeg w) = Some b \<and> retryCount (currentSeg w) < MAX_RETRIES \<longrightarrow>
        handleRetryUpload w = uploadSegment b (currentSegment w) w
        \<and> inFlight (handleRetryUpload w) = inFlight w @ [(currentSegment w, b)])"
  by (simp add: handleAutoStop_resume_def handleTouchEnd_resume_def handleRetryUpload_def
      inFlight_uploadSegment trace_uploadSegment patchSegment_def createObjectURL_def Let_def)

theorem one_stop_starts_two_uploads_witness:
  "uploadingWorld = run heldSixtySeconds init
   \<and> inFlight uploadingWorld = [(0, webmA), (0, blobA)]
   \<and> inFlight (handleAutoStop_resume 0 (Some blobA) init) = [(0, webmA), (0, blobA)]
   \<and> blob (currentSeg uploadingWorld) = Some blobA
   \<and> retryCount (currentSeg uploadingWorld) < MAX_RETRIES
   \<and> status (currentSeg uploadingWorld) = Uploading
   \<and> inFlight (handleRetryUpload uploadingWorld) = [(0, webmA), (0, blobA), (0, blobA)]"
proof -
  have a: "blob (currentSeg uploadingWorld) = Some blobA
      \<and> retryCount (currentSeg uploadingWorld) < MAX_RETRIES
      \<and> status (currentSeg uploadingWorld) = Uploading
      \<and> inFlight uploadingWorld = [(0, webmA), (0, blobA)]
      \<and> currentSegment uploadingWorld = 0"
    by (simp add: uploadingWorld_eq currentSeg_def MAX_RETRIES_def)
  have c: "correctBlob blobA = webmA \<and> inFlight init = []"
    by (simp add: correctBlob_def blobA_def webmA_def init_def)
  from one_stop_starts_two_uploads[of 0 blobA init] c have two:
    "inFlight (handleAutoStop_resume 0 (Some blobA) init) = [(0, webmA), (0, blobA)]"
    by simp
  from one_stop_starts_two_uploads[of 0 blobA uploadingWorld] a have three:
    "inFlight (handleRetryUpload uploadingWorld)
       = inFlight uploadingWorld @ [(currentSegment uploadingWorld, blobA)]"
    by blast
  from three a have three':
    "inFlight (handleRetryUpload uploadingWorld) = [(0, webmA), (0, blobA), (0, blobA)]"
    by simp
  have r: "uploadingWorld = run heldSixtySeconds init"
    by (simp add: uploadingWorld_def)
  show ?thesis
    using a two three' r by blast
qed

subsection \<open>A remote URL on a segment that is not uploaded\<close>

text \<open>
  Claim C4, what the code does. The user holds for 60 seconds; of the two uploads that the
  stop started, the first (of the payload under the corrected type) succeeds and the second
  (of the payload as recorded) fails. The state reached has segment 0 in
  error with its remote URL set.
\<close>

theorem remote_url_on_error_segment:
  "successThenFailure =
     run (heldSixtySeconds @
          [UploadSettled 0 webmA okOutcome, UploadSettled 0 blobA failOutcome]) init
   \<and> status (segments successThenFailure ! 0) = Error
   \<and> uploadUrl (segments successThenFailure ! 0)
       = Some ''https://cdn.example/audio/t1/segment_0.webm''
   \<and> retryCount (segments successThenFailure ! 0) = 1"
proof -
  from scenarios_reachable have r:
    "successThenFailure =
       run (heldSixtySeconds @
            [UploadSettled 0 webmA okOutcome, UploadSettled 0 blobA failOutcome]) init"
    by blast
  have v: "status (segments successThenFailure ! 0) = Error
      \<and> uploadUrl (segments successThenFailure ! 0)
          = Some ''https://cdn.example/audio/t1/segment_0.webm''
      \<and> retryCount (segments successThenFailure ! 0) = 1"
    by (simp add: successThenFailure_eq)
  show ?thesis using r v by blast
qed

theorem remote_url_on_error_segment_witness:
  "uploadUrl (segments successThenFailure ! 0) \<noteq> None
   \<and> status (segments successThenFailure ! 0) \<noteq> Uploaded"
  using remote_url_on_error_segment by simp

subsection \<open>Manual stop without a payload\<close>

text \<open>
  Claim C5, what the code does. With a payload the two stop paths do the same after the
  recorder has stopped. Without one \<^verbatim>\<open>handleAutoStop\<close> sets the segment to error with the
  capture-failure text, and \<^verbatim>\<open>handleTouchEnd\<close> does nothing: the segment stays in
  processing, without an error message.
\<close>

theorem manual_stop_without_payload_does_nothing:
  "handleTouchEnd_resume cur None w = w
   \<and> handleAutoStop_resume cur None w
       = patchSegment cur (\<lambda>s. s\<lparr>status := Error, errorMsg := Some msgCaptureFailed\<rparr>) w
   \<and> handleTouchEnd_resume cur (Some b) w = handleAutoStop_resume cur (Some b) w"
  by (simp add: handleTouchEnd_resume_def handleAutoStop_resume_def)

theorem manual_stop_without_payload_does_nothing_witness:
  "manualStopNoPayload =
     run (holdGranted @ replicate 3 (Tick 6) @
          [TouchEnd, RecorderStopped (TouchEndCb 0) None]) init
   \<and> handleTouchEnd_resume 0 None manualStopNoPayload = manualStopNoPayload
   \<and> status (currentSeg manualStopNoPayload) = Processing
   \<and> errorMsg (currentSeg manualStopNoPayload) = None
   \<and> \<not> isRecording (state manualStopNoPayload)
   \<and> stopping manualStopNoPayload = [] \<and> inFlight manualStopNoPayload = []
   \<and> status (currentSeg (handleAutoStop_resume 0 None manualStopNoPayload)) = Error
   \<and> errorMsg (currentSeg (handleAutoStop_resume 0 None manualStopNoPayload))
       = Some msgCaptureFailed"
proof -
  have a: "status (currentSeg manualStopNoPayload) = Processing
      \<and> errorMsg (currentSeg manualStopNoPayload) = None
      \<and> \<not> isRecording (state manualStopNoPayload)
      \<and> stopping manualStopNoPayload = [] \<and> inFlight manualStopNoPayload = []"
    by (simp add: manualStopNoPayload_eq currentSeg_def initialSegment_def)
  from manual_stop_without_payload_does_nothing[of 0 manualStopNoPayload] have b:
    "handleTouchEnd_resume 0 None manualStopNoPayload = manualStopNoPayload
     \<and> handleAutoStop_resume 0 None manualStopNoPayload
       = patchSegment 0 (\<lambda>s. s\<lparr>status := Error, errorMsg := Some msgCaptureFailed\<rparr>)
           manualStopNoPayload"
    by blast
  have c: "status (currentSeg (patchSegment 0
        (\<lambda>s. s\<lparr>status := Error, errorMsg := Some msgCaptureFailed\<rparr>) manualStopNoPayload)) = Error
      \<and> errorMsg (currentSeg (patchSegment 0
        (\<lambda>s. s\<lparr>status := Error, errorMsg := Some msgCaptureFailed\<rparr>) manualStopNoPayload))
        = Some msgCaptureFailed"
    by (simp add: manualStopNoPayload_eq currentSeg_def patchSegment_def)
  from b c have d:
    "status (currentSeg (handleAutoStop_resume 0 None manualStopNoPayload)) = Error
     \<and> errorMsg (currentSeg (handleAutoStop_resume 0 None manualStopNoPayload))
         = Some msgCaptureFailed"
    by simp
  from scenarios_reachable have r:
    "manualStopNoPayload =
       run (holdGranted @ replicate 3 (Tick 6) @
            [TouchEnd, RecorderStopped (TouchEndCb 0) None]) init"
    by blast
  show ?thesis
    using a b d r by blast
qed

end
